theory Spec2Isabelle
  imports Complex_Main "HOL-Library.Sublist"
begin

section \<open>Python values\<close>

text \<open>
  A Python \<^verbatim>\<open>str\<close> is a sequence of Unicode code points and \<^verbatim>\<open>len\<close> counts code
  points, so a string is a list of code points here. String literals of the source are
  written \<open>lit ''...''\<close>.
\<close>

type_synonym pychar = nat
type_synonym pystr = "pychar list"
type_synonym bytes = "nat list"

definition lit :: "string \<Rightarrow> pystr" where
  "lit s = map of_char s"

text \<open>
  \<^verbatim>\<open>str.isspace\<close> for one character: the code points CPython treats as whitespace
  (U+0009..U+000D, U+001C..U+0020, U+0085, U+00A0, U+1680, U+2000..U+200A, U+2028,
  U+2029, U+202F, U+205F, U+3000).
\<close>

definition isspace :: "pychar \<Rightarrow> bool" where
  "isspace c \<longleftrightarrow>
     (9 \<le> c \<and> c \<le> 13) \<or> (28 \<le> c \<and> c \<le> 32) \<or> c = 133 \<or> c = 160 \<or> c = 5760 \<or>
     (8192 \<le> c \<and> c \<le> 8202) \<or> c = 8232 \<or> c = 8233 \<or> c = 8239 \<or> c = 8287 \<or> c = 12288"

text \<open>\<^verbatim>\<open>s.strip()\<close>: whitespace removed from both ends.\<close>

definition strip :: "pystr \<Rightarrow> pystr" where
  "strip s = rev (dropWhile isspace (rev (dropWhile isspace s)))"

text \<open>
  Exceptions are values. A constructor stands for its class and the subclasses not listed;
  \<open>Exception\<close> is any other subclass of \<^verbatim>\<open>Exception\<close>. \<open>RequestException\<close> is
  \<^verbatim>\<open>requests.RequestException\<close> with its subclasses (\<^verbatim>\<open>HTTPError\<close>,
  \<^verbatim>\<open>ConnectionError\<close>, ...). The argument is the message \<^verbatim>\<open>str(e)\<close>.
\<close>

datatype pyexn =
    Exception pystr
  | IndexError pystr
  | AttributeError pystr
  | OSError pystr
  | RequestException pystr

fun str_exn :: "pyexn \<Rightarrow> pystr" where
  "str_exn (Exception m) = m"
| "str_exn (IndexError m) = m"
| "str_exn (AttributeError m) = m"
| "str_exn (OSError m) = m"
| "str_exn (RequestException m) = m"

text \<open>
  A Python \<^verbatim>\<open>float\<close> is the real number it denotes, or an infinity, or NaN. Floats
  compare exactly; the rounding of a decimal text to a float happens inside
  \<^verbatim>\<open>float()\<close>, which is a parameter below.
\<close>

datatype pyfloat = Finite real | PosInf | NegInf | NaN

text \<open>\<^verbatim>\<open>a > b\<close> on floats: false as soon as one side is NaN.\<close>

fun float_gt :: "pyfloat \<Rightarrow> pyfloat \<Rightarrow> bool" where
  "float_gt NaN _ = False"
| "float_gt _ NaN = False"
| "float_gt (Finite a) (Finite b) = (a > b)"
| "float_gt PosInf PosInf = False"
| "float_gt PosInf _ = True"
| "float_gt _ PosInf = False"
| "float_gt NegInf _ = False"
| "float_gt (Finite a) NegInf = True"

text \<open>\<^verbatim>\<open>a >= b\<close> on floats.\<close>

fun float_ge :: "pyfloat \<Rightarrow> pyfloat \<Rightarrow> bool" where
  "float_ge NaN _ = False"
| "float_ge _ NaN = False"
| "float_ge (Finite a) (Finite b) = (a \<ge> b)"
| "float_ge PosInf _ = True"
| "float_ge NegInf NegInf = True"
| "float_ge NegInf _ = False"
| "float_ge (Finite a) NegInf = True"
| "float_ge (Finite a) PosInf = False"

text \<open>
  The builtin \<^verbatim>\<open>max(a, b)\<close>: it keeps the first argument unless the second compares
  greater.
\<close>

definition py_max :: "pyfloat \<Rightarrow> pyfloat \<Rightarrow> pyfloat" where
  "py_max a b = (if float_gt b a then b else a)"

section \<open>The outside world and its trace\<close>

datatype content_part = TextPart pystr | ImageUrlPart pystr

datatype msg_content = Str pystr | Parts "content_part list"

record message =
  role :: pystr
  content :: msg_content

record chat_request =
  model :: pystr
  messages :: "message list"
  max_tokens :: nat
  temperature :: "pyfloat option"

text \<open>
  What a call of \<^verbatim>\<open>openai.ChatCompletion.create\<close> returns: for each choice, the
  content of its message.
\<close>

type_synonym chat_response = "pystr list"

text \<open>
  Python values as they come out of \<^verbatim>\<open>response.json()\<close>: \<^verbatim>\<open>None\<close>, booleans, numbers,
  strings, lists and dictionaries (with their keys in order).
\<close>

datatype json =
    JNone
  | JBool bool
  | JInt int
  | JFloat pyfloat
  | JStr pystr
  | JList "json list"
  | JDict "(pystr \<times> json) list"

text \<open>Truth value of a Python value, as \<^verbatim>\<open>if x:\<close> and \<^verbatim>\<open>not x\<close> take it.\<close>

fun truthy :: "json \<Rightarrow> bool" where
  "truthy JNone = False"
| "truthy (JBool b) = b"
| "truthy (JInt i) = (i \<noteq> 0)"
| "truthy (JFloat f) = (f \<noteq> Finite 0)"
| "truthy (JStr s) = (s \<noteq> [])"
| "truthy (JList xs) = (xs \<noteq> [])"
| "truthy (JDict kvs) = (kvs \<noteq> [])"

datatype http_body =
    FormData "(pystr \<times> pystr option) list"
  | JsonBody json

record http_request =
  url :: pystr
  headers :: "(pystr \<times> pystr) list"
  body :: http_body

text \<open>
  A \<^verbatim>\<open>requests.Response\<close>: \<open>json_body\<close> is what \<^verbatim>\<open>response.json()\<close> returns or raises,
  \<open>http_error\<close> the message \<^verbatim>\<open>raise_for_status\<close> gives its \<^verbatim>\<open>HTTPError\<close>.
\<close>

record http_response =
  status_code :: nat
  resp_text :: pystr
  json_body :: "pyexn + json"
  http_error :: pystr

text \<open>The arguments of one \<^verbatim>\<open>s3_client.upload_fileobj\<close> call.\<close>

record s3_put =
  fileobj :: bytes
  bucket :: "pystr option"
  key :: pystr
  content_type :: pystr
  acl :: pystr

text \<open>
  Every access to the outside is recorded, in order, whether it succeeds or not.
  \<open>Now\<close> carries the formatted time that was read, \<open>StError\<close> the message shown by
  \<^verbatim>\<open>st.error\<close>.
\<close>

datatype event =
    FileRead pystr
  | ChatCompletion chat_request
  | Now pystr
  | S3Upload s3_put
  | HttpPost http_request
  | StError pystr

text \<open>
  The collaborators of the program. Each service sees the trace so far, so its answer may
  change from one call to the next; \<open>Inl\<close> is the exception it raises.
  \<^item> \<open>read_file\<close>: \<^verbatim>\<open>open(path, "rb").read()\<close>;
  \<^item> \<open>b64encode\<close>: \<^verbatim>\<open>base64.b64encode(b).decode()\<close>;
  \<^item> \<open>chat_create\<close>: \<^verbatim>\<open>openai.ChatCompletion.create\<close>;
  \<^item> \<open>py_float\<close>: the builtin \<^verbatim>\<open>float\<close> on a string, \<open>None\<close> for \<^verbatim>\<open>ValueError\<close>;
  \<^item> \<open>getenv\<close>: \<^verbatim>\<open>os.getenv\<close>;
  \<^item> \<open>str_lower\<close>: \<^verbatim>\<open>str.lower\<close>;
  \<^item> \<open>str_encode\<close>: \<^verbatim>\<open>str.encode\<close>;
  \<^item> \<open>format_value\<close>: the text an f-string puts for a value;
  \<^item> \<open>now_strftime\<close>: \<^verbatim>\<open>datetime.now().strftime("%Y%m%d_%H%M%S")\<close>;
  \<^item> \<open>upload_fileobj\<close>: \<^verbatim>\<open>s3_client.upload_fileobj\<close>;
  \<^item> \<open>http_post\<close>: \<^verbatim>\<open>requests.post\<close>.
\<close>

record env =
  read_file :: "event list \<Rightarrow> pystr \<Rightarrow> pyexn + bytes"
  b64encode :: "bytes \<Rightarrow> pystr"
  chat_create :: "event list \<Rightarrow> chat_request \<Rightarrow> pyexn + chat_response"
  py_float :: "pystr \<Rightarrow> pyfloat option"
  getenv :: "pystr \<Rightarrow> pystr option"
  str_lower :: "pystr \<Rightarrow> pystr"
  str_encode :: "pystr \<Rightarrow> bytes"
  format_value :: "json \<Rightarrow> pystr"
  now_strftime :: "event list \<Rightarrow> pystr"
  upload_fileobj :: "event list \<Rightarrow> s3_put \<Rightarrow> pyexn + unit"
  http_post :: "event list \<Rightarrow> http_request \<Rightarrow> pyexn + http_response"

text \<open>\<^verbatim>\<open>response.choices[0].message.content\<close>, with the \<^verbatim>\<open>IndexError\<close> of an empty list.\<close>

definition first_content :: "chat_response \<Rightarrow> pyexn + pystr" where
  "first_content response =
     (case response of
        [] \<Rightarrow> Inl (IndexError (lit ''list index out of range''))
      | c # _ \<Rightarrow> Inr c)"

text \<open>One call of the service, recorded in the trace, followed by the read of the first choice.\<close>

definition chat_content :: "env \<Rightarrow> chat_request \<Rightarrow> event list \<Rightarrow> (pyexn + pystr) \<times> event list" where
  "chat_content env req s =
     (case chat_create env s req of
        Inl e \<Rightarrow> (Inl e, s @ [ChatCompletion req])
      | Inr response \<Rightarrow> (first_content response, s @ [ChatCompletion req]))"

section \<open>ai\_module.py\<close>

record ProductListing =
  title :: pystr
  description :: pystr
  category :: pystr
  postage_weight :: pyfloat
  suggested_price :: "pyfloat option"

definition encode_image :: "env \<Rightarrow> pystr \<Rightarrow> event list \<Rightarrow> (pyexn + pystr) \<times> event list" where
  "encode_image env image_path s =
     (case read_file env s image_path of
        Inl e \<Rightarrow> (Inl e, s @ [FileRead image_path])
      | Inr image_bytes \<Rightarrow> (Inr (b64encode env image_bytes), s @ [FileRead image_path]))"

text \<open>
  The loop of \<^verbatim>\<open>analyze_product_images\<close> over \<^verbatim>\<open>image_paths[:6]\<close>; it stands outside the
  \<^verbatim>\<open>try\<close>, so an exception of \<^verbatim>\<open>encode_image\<close> leaves the function.
\<close>

fun encode_images ::
  "env \<Rightarrow> pystr list \<Rightarrow> content_part list \<Rightarrow> event list \<Rightarrow> (pyexn + content_part list) \<times> event list" where
  "encode_images env [] image_contents s = (Inr image_contents, s)"
| "encode_images env (image_path # rest) image_contents s =
     (case encode_image env image_path s of
        (Inl e, s') \<Rightarrow> (Inl e, s')
      | (Inr base64_image, s') \<Rightarrow>
          encode_images env rest
            (image_contents @ [ImageUrlPart (lit ''data:image/jpeg;base64,'' @ base64_image)]) s')"

definition analysis_system_prompt :: pystr where
  "analysis_system_prompt =
     lit ''You are an expert eBay listing assistant. Analyze the provided product images and extract detailed information about the product including:\<newline>'' @
     lit ''                - Product type and brand\<newline>'' @
     lit ''                - Condition assessment\<newline>'' @
     lit ''                - Key features and specifications\<newline>'' @
     lit ''                - Materials and dimensions if visible\<newline>'' @
     lit ''                - Any defects or wear\<newline>'' @
     lit ''                - Estimated value range\<newline>'' @
     lit ''                \<newline>'' @
     lit ''                Be thorough and accurate in your analysis.''"

definition analysis_request :: "content_part list \<Rightarrow> pystr \<Rightarrow> chat_request" where
  "analysis_request image_contents user_description =
     \<lparr>model = lit ''gpt-4-vision-preview'',
      messages =
        [\<lparr>role = lit ''system'', content = Str analysis_system_prompt\<rparr>,
         \<lparr>role = lit ''user'',
          content = Parts
            ([TextPart (lit ''Please analyze these product images. Additional user description: ''
                @ user_description)] @ image_contents)\<rparr>],
      max_tokens = 1000,
      temperature = None\<rparr>"

text \<open>The dictionary \<^verbatim>\<open>analyze_product_images\<close> returns, tagged by its \<^verbatim>\<open>"success"\<close> entry.\<close>

datatype analysis_result =
    AnalysisOk pystr
  | AnalysisFailed pystr

fun success :: "analysis_result \<Rightarrow> bool" where
  "success (AnalysisOk _) = True"
| "success (AnalysisFailed _) = False"

definition analyze_product_images ::
  "env \<Rightarrow> pystr list \<Rightarrow> pystr \<Rightarrow> event list \<Rightarrow> (pyexn + analysis_result) \<times> event list" where
  "analyze_product_images env image_paths user_description s =
     (case encode_images env (take 6 image_paths) [] s of
        (Inl e, s1) \<Rightarrow> (Inl e, s1)
      | (Inr image_contents, s1) \<Rightarrow>
          (case chat_content env (analysis_request image_contents user_description) s1 of
             (Inl e, s2) \<Rightarrow> (Inr (AnalysisFailed (str_exn e)), s2)
           | (Inr analysis, s2) \<Rightarrow> (Inr (AnalysisOk analysis), s2)))"

definition title_prompt :: "pystr \<Rightarrow> pystr \<Rightarrow> pystr" where
  "title_prompt product_analysis user_description =
     lit ''\<newline>'' @
     lit ''        Based on the product analysis and user description, create an optimized eBay title.\<newline>'' @
     lit ''        \<newline>'' @
     lit ''        Product Analysis: '' @
     product_analysis @
     lit ''\<newline>'' @
     lit ''        User Description: '' @
     user_description @
     lit ''\<newline>'' @
     lit ''        \<newline>'' @
     lit ''        Rules for eBay titles:\<newline>'' @
     lit ''        - Maximum 80 characters\<newline>'' @
     lit ''        - Include brand, model, condition, and key features\<newline>'' @
     lit ''        - Use keywords that buyers search for\<newline>'' @
     lit ''        - Avoid promotional language like \"RARE\" or \"AMAZING\"\<newline>'' @
     lit ''        - Include size, color, or other variants if applicable\<newline>'' @
     lit ''        \<newline>'' @
     lit ''        Generate only the title, no additional text.\<newline>'' @
     lit ''        ''"

definition title_request :: "pystr \<Rightarrow> pystr \<Rightarrow> chat_request" where
  "title_request product_analysis user_description =
     \<lparr>model = lit ''gpt-4'',
      messages =
        [\<lparr>role = lit ''system'', content = Str (lit ''You are an expert eBay listing title generator.'')\<rparr>,
         \<lparr>role = lit ''user'', content = Str (title_prompt product_analysis user_description)\<rparr>],
      max_tokens = 100,
      temperature = Some (Finite 0.7)\<rparr>"

definition generate_ebay_title :: "env \<Rightarrow> pystr \<Rightarrow> pystr \<Rightarrow> event list \<Rightarrow> pystr \<times> event list" where
  "generate_ebay_title env product_analysis user_description s =
     (case chat_content env (title_request product_analysis user_description) s of
        (Inl e, s') \<Rightarrow> (lit ''Error generating title: '' @ str_exn e, s')
      | (Inr c, s') \<Rightarrow>
          (let title = strip c
           in (if length title > 80 then take 80 title else title, s')))"

definition description_prompt :: "pystr \<Rightarrow> pystr \<Rightarrow> pystr" where
  "description_prompt product_analysis user_description =
     lit ''\<newline>'' @
     lit ''        Create a comprehensive eBay product description based on the analysis and user input.\<newline>'' @
     lit ''        \<newline>'' @
     lit ''        Product Analysis: '' @
     product_analysis @
     lit ''\<newline>'' @
     lit ''        User Description: '' @
     user_description @
     lit ''\<newline>'' @
     lit ''        \<newline>'' @
     lit ''        Structure the description with:\<newline>'' @
     lit ''        1. Product overview and key features\<newline>'' @
     lit ''        2. Detailed specifications\<newline>'' @
     lit ''        3. Condition details\<newline>'' @
     lit ''        4. Shipping and return information\<newline>'' @
     lit ''        5. Professional closing\<newline>'' @
     lit ''        \<newline>'' @
     lit ''        Use HTML formatting for better presentation. Include:\<newline>'' @
     lit ''        - Bullet points for features\<newline>'' @
     lit ''        - Bold text for important information\<newline>'' @
     lit ''        - Clear sections and headers\<newline>'' @
     lit ''        \<newline>'' @
     lit ''        Make it professional and informative to increase buyer confidence.\<newline>'' @
     lit ''        ''"

definition description_request :: "pystr \<Rightarrow> pystr \<Rightarrow> chat_request" where
  "description_request product_analysis user_description =
     \<lparr>model = lit ''gpt-4'',
      messages =
        [\<lparr>role = lit ''system'', content = Str (lit ''You are an expert eBay listing description writer.'')\<rparr>,
         \<lparr>role = lit ''user'', content = Str (description_prompt product_analysis user_description)\<rparr>],
      max_tokens = 2000,
      temperature = Some (Finite 0.7)\<rparr>"

definition generate_ebay_description :: "env \<Rightarrow> pystr \<Rightarrow> pystr \<Rightarrow> event list \<Rightarrow> pystr \<times> event list" where
  "generate_ebay_description env product_analysis user_description s =
     (case chat_content env (description_request product_analysis user_description) s of
        (Inl e, s') \<Rightarrow> (lit ''<p>Error generating description: '' @ str_exn e @ lit ''</p>'', s')
      | (Inr c, s') \<Rightarrow> (strip c, s'))"

definition category_prompt :: "pystr \<Rightarrow> pystr \<Rightarrow> pystr" where
  "category_prompt product_analysis user_description =
     lit ''\<newline>'' @
     lit ''        Based on the product analysis, suggest the most appropriate eBay category.\<newline>'' @
     lit ''        \<newline>'' @
     lit ''        Product Analysis: '' @
     product_analysis @
     lit ''\<newline>'' @
     lit ''        User Description: '' @
     user_description @
     lit ''\<newline>'' @
     lit ''        \<newline>'' @
     lit ''        Provide the category in this format: \"Main Category > Subcategory > Specific Category\"\<newline>'' @
     lit ''        \<newline>'' @
     lit ''        Common eBay categories include:\<newline>'' @
     lit ''        - Electronics > Computers & Tablets > Laptops & Netbooks\<newline>'' @
     lit ''        - Fashion > Women's Clothing > Tops & Blouses\<newline>'' @
     lit ''        - Home & Garden > Kitchen, Dining & Bar > Small Kitchen Appliances\<newline>'' @
     lit ''        - Collectibles > Trading Cards > Sports Trading Cards\<newline>'' @
     lit ''        - Books > Fiction & Literature > Contemporary Fiction\<newline>'' @
     lit ''        \<newline>'' @
     lit ''        Choose the most specific and accurate category possible.\<newline>'' @
     lit ''        ''"

definition category_request :: "pystr \<Rightarrow> pystr \<Rightarrow> chat_request" where
  "category_request product_analysis user_description =
     \<lparr>model = lit ''gpt-4'',
      messages =
        [\<lparr>role = lit ''system'', content = Str (lit ''You are an expert eBay category classifier.'')\<rparr>,
         \<lparr>role = lit ''user'', content = Str (category_prompt product_analysis user_description)\<rparr>],
      max_tokens = 100,
      temperature = Some (Finite 0.5)\<rparr>"

definition categorize_product :: "env \<Rightarrow> pystr \<Rightarrow> pystr \<Rightarrow> event list \<Rightarrow> pystr \<times> event list" where
  "categorize_product env product_analysis user_description s =
     (case chat_content env (category_request product_analysis user_description) s of
        (Inl e, s') \<Rightarrow> (lit ''Error categorizing product: '' @ str_exn e, s')
      | (Inr c, s') \<Rightarrow> (strip c, s'))"

definition weight_prompt :: "pystr \<Rightarrow> pystr \<Rightarrow> pystr" where
  "weight_prompt product_analysis user_description =
     lit ''\<newline>'' @
     lit ''        Based on the product analysis, estimate the postage weight in kilograms.\<newline>'' @
     lit ''        \<newline>'' @
     lit ''        Product Analysis: '' @
     product_analysis @
     lit ''\<newline>'' @
     lit ''        User Description: '' @
     user_description @
     lit ''\<newline>'' @
     lit ''        \<newline>'' @
     lit ''        Consider:\<newline>'' @
     lit ''        - Product size and materials\<newline>'' @
     lit ''        - Typical weight for similar items\<newline>'' @
     lit ''        - Packaging requirements\<newline>'' @
     lit ''        - Add 10-15% for packaging materials\<newline>'' @
     lit ''        \<newline>'' @
     lit ''        Provide only the numeric weight value in kg (e.g., 0.5 for 500g, 2.0 for 2kg).\<newline>'' @
     lit ''        Be conservative and slightly overestimate for accurate shipping costs.\<newline>'' @
     lit ''        ''"

definition weight_request :: "pystr \<Rightarrow> pystr \<Rightarrow> chat_request" where
  "weight_request product_analysis user_description =
     \<lparr>model = lit ''gpt-4'',
      messages =
        [\<lparr>role = lit ''system'', content = Str (lit ''You are an expert shipping weight estimator.'')\<rparr>,
         \<lparr>role = lit ''user'', content = Str (weight_prompt product_analysis user_description)\<rparr>],
      max_tokens = 50,
      temperature = Some (Finite 0.3)\<rparr>"

text \<open>
  The inner \<^verbatim>\<open>try\<close> of \<^verbatim>\<open>estimate_postage_weight\<close>: \<^verbatim>\<open>float(weight_str)\<close>, then the
  minimum of 100 g, or the default weight on \<^verbatim>\<open>ValueError\<close>.
\<close>

definition parse_weight :: "env \<Rightarrow> pystr \<Rightarrow> pyfloat" where
  "parse_weight env weight_str =
     (case py_float env weight_str of
        Some weight \<Rightarrow> py_max (Finite 0.1) weight
      | None \<Rightarrow> Finite 0.5)"

definition estimate_postage_weight :: "env \<Rightarrow> pystr \<Rightarrow> pystr \<Rightarrow> event list \<Rightarrow> pyfloat \<times> event list" where
  "estimate_postage_weight env product_analysis user_description s =
     (case chat_content env (weight_request product_analysis user_description) s of
        (Inl e, s') \<Rightarrow> (Finite 0.5, s')
      | (Inr c, s') \<Rightarrow> (let weight_str = strip c in (parse_weight env weight_str, s')))"

definition generate_complete_listing ::
  "env \<Rightarrow> pystr list \<Rightarrow> pystr \<Rightarrow> event list \<Rightarrow> (pyexn + ProductListing) \<times> event list" where
  "generate_complete_listing env image_paths user_description s =
     (case analyze_product_images env image_paths user_description s of
        (Inl e, s1) \<Rightarrow> (Inl e, s1)
      | (Inr (AnalysisFailed err), s1) \<Rightarrow>
          (Inl (Exception (lit ''Failed to analyze images: '' @ err)), s1)
      | (Inr (AnalysisOk product_analysis), s1) \<Rightarrow>
          (let (title, s2) = generate_ebay_title env product_analysis user_description s1;
               (description, s3) = generate_ebay_description env product_analysis user_description s2;
               (category, s4) = categorize_product env product_analysis user_description s3;
               (weight, s5) = estimate_postage_weight env product_analysis user_description s4
           in (Inr \<lparr>title = title, description = description, category = category,
                    postage_weight = weight, suggested_price = None\<rparr>, s5)))"

section \<open>app.py: the storage uploader\<close>

text \<open>What an f-string puts for a value that is a string or \<^verbatim>\<open>None\<close>.\<close>

definition str_opt :: "pystr option \<Rightarrow> pystr" where
  "str_opt v = (case v of None \<Rightarrow> lit ''None'' | Some t \<Rightarrow> t)"

text \<open>What an f-string puts for a natural number: its decimal digits.\<close>

fun str_nat :: "nat \<Rightarrow> pystr" where
  "str_nat n = (if n < 10 then [48 + n] else str_nat (n div 10) @ [48 + n mod 10])"

declare str_nat.simps [simp del]

text \<open>
  An image file is a file object: its bytes, the read position, and the exception that
  its \<^verbatim>\<open>seek\<close> raises, if it raises one (a closed file, an object that cannot seek).
  \<^verbatim>\<open>seek\<close> moves the position; an upload sends the bytes from the position on.
\<close>

record buffer =
  data :: bytes
  pos :: nat
  seek_error :: "pyexn option"

definition seek :: "buffer \<Rightarrow> nat \<Rightarrow> pyexn + buffer" where
  "seek f n = (case seek_error f of Some e \<Rightarrow> Inl e | None \<Rightarrow> Inr (f\<lparr>pos := n\<rparr>))"

text \<open>
  The fields of \<^verbatim>\<open>CloudStorageManager\<close>. The S3 client is the collaborator
  \<open>upload_fileobj\<close>; the bucket name is set for the storage type \<^verbatim>\<open>"s3"\<close> only.
\<close>

record CloudStorageManager =
  storage_type :: pystr
  bucket_name :: "pystr option"

definition CloudStorageManager_init :: "env \<Rightarrow> pystr \<Rightarrow> CloudStorageManager" where
  "CloudStorageManager_init env storage =
     \<lparr>storage_type = storage,
      bucket_name = (if storage = lit ''s3'' then getenv env (lit ''S3_BUCKET_NAME'') else None)\<rparr>"

definition upload_image ::
  "env \<Rightarrow> CloudStorageManager \<Rightarrow> buffer \<Rightarrow> pystr \<Rightarrow> event list \<Rightarrow> pystr option \<times> event list" where
  "upload_image env self image_file filename s =
     (if storage_type self = lit ''s3'' then
        (let put = \<lparr>fileobj = drop (pos image_file) (data image_file),
                    bucket = bucket_name self,
                    key = filename,
                    content_type = lit ''image/jpeg'',
                    acl = lit ''public-read''\<rparr>
         in (case upload_fileobj env s put of
               Inl e \<Rightarrow>
                 (None, s @ [S3Upload put, StError (lit ''Error uploading image: '' @ str_exn e)])
             | Inr _ \<Rightarrow>
                 (Some (lit ''https://'' @ str_opt (bucket_name self) @ lit ''.s3.amazonaws.com/''
                    @ filename),
                  s @ [S3Upload put])))
      else (None, s))"

text \<open>
  The loop of \<^verbatim>\<open>upload_multiple_images\<close>: \<open>i\<close> is the index \<^verbatim>\<open>enumerate\<close> gives, \<open>urls\<close> the
  list built so far. \<^verbatim>\<open>image_file.seek(0)\<close> stands outside every \<^verbatim>\<open>try\<close>: its exception
  leaves the function, and the list built so far is lost.
\<close>

fun upload_loop ::
  "env \<Rightarrow> CloudStorageManager \<Rightarrow> nat \<Rightarrow> buffer option list \<Rightarrow> pystr list \<Rightarrow> event list
     \<Rightarrow> (pyexn + pystr list) \<times> event list" where
  "upload_loop env self i [] urls s = (Inr urls, s)"
| "upload_loop env self i (None # rest) urls s = upload_loop env self (Suc i) rest urls s"
| "upload_loop env self i (Some image_file # rest) urls s =
     (let timestamp = now_strftime env s;
          filename = lit ''product_images/'' @ timestamp @ lit ''_'' @ str_nat i @ lit ''.jpg''
      in (case seek image_file 0 of
            Inl e \<Rightarrow> (Inl e, s @ [Now timestamp])
          | Inr image_file' \<Rightarrow>
              (case upload_image env self image_file' filename (s @ [Now timestamp]) of
                 (None, s') \<Rightarrow> upload_loop env self (Suc i) rest urls s'
               | (Some image_url, s') \<Rightarrow>
                   if image_url \<noteq> [] then upload_loop env self (Suc i) rest (urls @ [image_url]) s'
                   else upload_loop env self (Suc i) rest urls s')))"

definition upload_multiple_images ::
  "env \<Rightarrow> CloudStorageManager \<Rightarrow> buffer option list \<Rightarrow> event list
     \<Rightarrow> (pyexn + pystr list) \<times> event list" where
  "upload_multiple_images env self image_files s = upload_loop env self 0 image_files [] s"

section \<open>app.py: the marketplace publisher\<close>

record eBayAPIManager =
  client_id :: "pystr option"
  client_secret :: "pystr option"
  redirect_uri :: "pystr option"
  access_token :: json
  refresh_token :: json
  sandbox_base_url :: pystr
  production_base_url :: pystr
  is_sandbox :: bool
  base_url :: pystr

definition eBayAPIManager_init :: "env \<Rightarrow> eBayAPIManager" where
  "eBayAPIManager_init env =
     (let sandbox =
            (str_lower env
               (case getenv env (lit ''EBAY_SANDBOX'') of None \<Rightarrow> lit ''true'' | Some v \<Rightarrow> v)
             = lit ''true'')
      in \<lparr>client_id = getenv env (lit ''EBAY_CLIENT_ID''),
          client_secret = getenv env (lit ''EBAY_CLIENT_SECRET''),
          redirect_uri = getenv env (lit ''EBAY_REDIRECT_URI''),
          access_token = JNone,
          refresh_token = JNone,
          sandbox_base_url = lit ''https://api.sandbox.ebay.com'',
          production_base_url = lit ''https://api.ebay.com'',
          is_sandbox = sandbox,
          base_url =
            (if sandbox then lit ''https://api.sandbox.ebay.com'' else lit ''https://api.ebay.com'')\<rparr>)"

definition get_oauth_url :: "eBayAPIManager \<Rightarrow> pystr" where
  "get_oauth_url self =
     (let scope = lit ''https://api.ebay.com/oauth/api_scope/sell.inventory''
      in lit ''https://auth.ebay.com/oauth2/authorize?client_id='' @ str_opt (client_id self)
           @ lit ''&response_type=code&redirect_uri='' @ str_opt (redirect_uri self)
           @ lit ''&scope='' @ scope)"

text \<open>The request \<^verbatim>\<open>get_access_token\<close> posts: URL, headers and form data.\<close>

definition token_request :: "env \<Rightarrow> eBayAPIManager \<Rightarrow> pystr \<Rightarrow> http_request" where
  "token_request env self authorization_code =
     \<lparr>url = base_url self @ lit ''/identity/v1/oauth2/token'',
      headers =
        [(lit ''Content-Type'', lit ''application/x-www-form-urlencoded''),
         (lit ''Authorization'',
          lit ''Basic '' @ b64encode env
            (str_encode env (str_opt (client_id self) @ lit '':'' @ str_opt (client_secret self))))],
      body = FormData
        [(lit ''grant_type'', Some (lit ''authorization_code'')),
         (lit ''code'', Some authorization_code),
         (lit ''redirect_uri'', redirect_uri self)]\<rparr>"

text \<open>\<^verbatim>\<open>response.raise_for_status()\<close>: an \<^verbatim>\<open>HTTPError\<close> for the statuses 400 to 599.\<close>

definition raise_for_status :: "http_response \<Rightarrow> pyexn + unit" where
  "raise_for_status response =
     (if 400 \<le> status_code response \<and> status_code response < 600
      then Inl (RequestException (http_error response))
      else Inr ())"

fun type_name :: "json \<Rightarrow> pystr" where
  "type_name JNone = lit ''NoneType''"
| "type_name (JBool _) = lit ''bool''"
| "type_name (JInt _) = lit ''int''"
| "type_name (JFloat _) = lit ''float''"
| "type_name (JStr _) = lit ''str''"
| "type_name (JList _) = lit ''list''"
| "type_name (JDict _) = lit ''dict''"

definition apostrophe :: pystr where
  "apostrophe = [39]"

text \<open>
  \<^verbatim>\<open>v.get(k)\<close>: the entry of a dictionary, \<^verbatim>\<open>None\<close> when the key is absent, and an
  \<^verbatim>\<open>AttributeError\<close> when \<open>v\<close> is no dictionary.
\<close>

definition dict_get :: "json \<Rightarrow> pystr \<Rightarrow> pyexn + json" where
  "dict_get v k =
     (case v of
        JDict kvs \<Rightarrow> Inr (case map_of kvs k of None \<Rightarrow> JNone | Some x \<Rightarrow> x)
      | _ \<Rightarrow> Inl (AttributeError
                 (apostrophe @ type_name v @ apostrophe @ lit '' object has no attribute ''
                    @ apostrophe @ lit ''get'' @ apostrophe)))"

text \<open>
  The handler \<^verbatim>\<open>except requests.RequestException\<close> of \<^verbatim>\<open>get_access_token\<close>: it reports
  the error and returns \<^verbatim>\<open>False\<close>; any other exception leaves the function.
\<close>

definition token_except ::
  "pyexn \<Rightarrow> eBayAPIManager \<Rightarrow> event list \<Rightarrow> (pyexn + bool) \<times> eBayAPIManager \<times> event list" where
  "token_except e self s =
     (case e of
        RequestException m \<Rightarrow>
          (Inr False, self, s @ [StError (lit ''Error getting access token: '' @ m)])
      | _ \<Rightarrow> (Inl e, self, s))"

definition get_access_token ::
  "env \<Rightarrow> eBayAPIManager \<Rightarrow> pystr \<Rightarrow> event list \<Rightarrow> (pyexn + bool) \<times> eBayAPIManager \<times> event list" where
  "get_access_token env self authorization_code s =
     (let req = token_request env self authorization_code;
          s1 = s @ [HttpPost req]
      in (case http_post env s req of
            Inl e \<Rightarrow> token_except e self s1
          | Inr response \<Rightarrow>
              (case raise_for_status response of
                 Inl e \<Rightarrow> token_except e self s1
               | Inr _ \<Rightarrow>
                   (case json_body response of
                      Inl e \<Rightarrow> token_except e self s1
                    | Inr token_data \<Rightarrow>
                        (case dict_get token_data (lit ''access_token'') of
                           Inl e \<Rightarrow> token_except e self s1
                         | Inr a \<Rightarrow>
                             (case dict_get token_data (lit ''refresh_token'') of
                                Inl e \<Rightarrow> token_except e (self\<lparr>access_token := a\<rparr>) s1
                              | Inr r \<Rightarrow>
                                  (Inr True, self\<lparr>access_token := a, refresh_token := r\<rparr>, s1)))))))"

text \<open>The dictionary \<^verbatim>\<open>create_draft_listing\<close> returns, tagged by its \<^verbatim>\<open>"success"\<close> entry.\<close>

datatype draft_result =
    DraftCreated json pystr
  | DraftFailed pystr

fun draft_success :: "draft_result \<Rightarrow> bool" where
  "draft_success (DraftCreated _ _) = True"
| "draft_success (DraftFailed _) = False"

definition listing_data :: "ProductListing \<Rightarrow> pystr list \<Rightarrow> json" where
  "listing_data listing image_urls =
     JDict
      [(lit ''product'', JDict
         [(lit ''title'', JStr (title listing)),
          (lit ''description'', JStr (description listing)),
          (lit ''imageUrls'', JList (map JStr image_urls)),
          (lit ''aspects'', JDict
             [(lit ''Brand'', JList [JStr (lit ''Generic'')]),
              (lit ''Condition'', JList [JStr (lit ''Used'')])])]),
       (lit ''condition'', JStr (lit ''USED_EXCELLENT'')),
       (lit ''format'', JStr (lit ''FIXED_PRICE'')),
       (lit ''marketplaceId'', JStr (lit ''EBAY_US'')),
       (lit ''categoryId'', JStr (lit ''1234'')),
       (lit ''listingPolicies'', JDict
          [(lit ''fulfillmentPolicyId'', JStr (lit ''policy_id'')),
           (lit ''paymentPolicyId'', JStr (lit ''policy_id'')),
           (lit ''returnPolicyId'', JStr (lit ''policy_id''))]),
       (lit ''pricingSummary'', JDict
          [(lit ''price'', JDict
             [(lit ''currency'', JStr (lit ''USD'')),
              (lit ''value'', JStr (lit ''10.00''))])]),
       (lit ''merchantLocationKey'', JStr (lit ''warehouse_location'')),
       (lit ''tax'', JDict
          [(lit ''applyTax'', JBool True),
           (lit ''vatPercentage'', JFloat (Finite 0))])]"

definition draft_request :: "env \<Rightarrow> eBayAPIManager \<Rightarrow> ProductListing \<Rightarrow> pystr list \<Rightarrow> http_request" where
  "draft_request env self listing image_urls =
     \<lparr>url = base_url self @ lit ''/sell/inventory/v1/inventory_item/draft'',
      headers =
        [(lit ''Authorization'', lit ''Bearer '' @ format_value env (access_token self)),
         (lit ''Content-Type'', lit ''application/json''),
         (lit ''X-EBAY-C-MARKETPLACE-ID'', lit ''EBAY_US'')],
      body = JsonBody (listing_data listing image_urls)\<rparr>"

definition create_draft_listing ::
  "env \<Rightarrow> eBayAPIManager \<Rightarrow> ProductListing \<Rightarrow> pystr list \<Rightarrow> event list \<Rightarrow> draft_result \<times> event list" where
  "create_draft_listing env self listing image_urls s =
     (if \<not> truthy (access_token self) then (DraftFailed (lit ''No access token available''), s)
      else
        (let req = draft_request env self listing image_urls;
             s1 = s @ [HttpPost req]
         in (case http_post env s req of
               Inl e \<Rightarrow> (DraftFailed (str_exn e), s1)
             | Inr response \<Rightarrow>
                 if status_code response = 201 then
                   (case json_body response of
                      Inl e \<Rightarrow> (DraftFailed (str_exn e), s1)
                    | Inr j \<Rightarrow>
                        (case dict_get j (lit ''sku'') of
                           Inl e \<Rightarrow> (DraftFailed (str_exn e), s1)
                         | Inr sku \<Rightarrow>
                             (DraftCreated sku (lit ''Draft listing created successfully''), s1)))
                 else
                   (DraftFailed (lit ''API Error: '' @ str_nat (status_code response) @ lit '' - ''
                      @ resp_text response), s1))))"

section \<open>Reading a request\<close>

text \<open>The image parts of a request, over all its messages, in order.\<close>

fun is_image :: "content_part \<Rightarrow> bool" where
  "is_image (ImageUrlPart _) = True"
| "is_image (TextPart _) = False"

fun content_images :: "msg_content \<Rightarrow> content_part list" where
  "content_images (Str _) = []"
| "content_images (Parts ps) = filter is_image ps"

definition request_images :: "chat_request \<Rightarrow> content_part list" where
  "request_images req = concat (map (\<lambda>m. content_images (content m)) (messages req))"

section \<open>Reading a trace\<close>

text \<open>The uploads, the times read and the errors shown in a trace, each in order.\<close>

fun s3_puts :: "event list \<Rightarrow> s3_put list" where
  "s3_puts [] = []"
| "s3_puts (S3Upload p # es) = p # s3_puts es"
| "s3_puts (_ # es) = s3_puts es"

fun times_read :: "event list \<Rightarrow> pystr list" where
  "times_read [] = []"
| "times_read (Now t # es) = t # times_read es"
| "times_read (_ # es) = times_read es"

fun errors_shown :: "event list \<Rightarrow> pystr list" where
  "errors_shown [] = []"
| "errors_shown (StError m # es) = m # errors_shown es"
| "errors_shown (_ # es) = errors_shown es"



text \<open>
  The positions of the items that are not \<^verbatim>\<open>None\<close>, counted from \<open>i\<close>, and these items.
\<close>

fun positions_from :: "nat \<Rightarrow> 'a option list \<Rightarrow> nat list" where
  "positions_from i [] = []"
| "positions_from i (None # xs) = positions_from (Suc i) xs"
| "positions_from i (Some x # xs) = i # positions_from (Suc i) xs"


fun present_items :: "'a option list \<Rightarrow> 'a list" where
  "present_items [] = []"
| "present_items (None # xs) = present_items xs"
| "present_items (Some x # xs) = x # present_items xs"


text \<open>
  What the store answered to each upload of a trace \<open>new\<close> that follows the trace \<open>s\<close>:
  the collaborator is asked again with the trace as it was when the upload was made.
\<close>

fun upload_outcomes :: "env \<Rightarrow> event list \<Rightarrow> event list \<Rightarrow> (s3_put \<times> (pyexn + unit)) list" where
  "upload_outcomes env s [] = []"
| "upload_outcomes env s (S3Upload p # new) =
     (p, upload_fileobj env s p) # upload_outcomes env (s @ [S3Upload p]) new"
| "upload_outcomes env s (e # new) = upload_outcomes env (s @ [e]) new"



text \<open>The requests posted in a trace, in order.\<close>

fun http_posts :: "event list \<Rightarrow> http_request list" where
  "http_posts [] = []"
| "http_posts (HttpPost r # es) = r # http_posts es"
| "http_posts (_ # es) = http_posts es"

section \<open>Sample collaborators\<close>

text \<open>The outside when it is down: every service call raises, and no variable is set.\<close>

definition failing_env :: env where
  "failing_env =
     \<lparr>read_file = (\<lambda>_ _. Inr [255, 216, 255]),
      b64encode = (\<lambda>_. lit ''/9j/''),
      chat_create = (\<lambda>_ _. Inl (Exception (lit ''Rate limit reached''))),
      py_float = (\<lambda>_. None),
      getenv = (\<lambda>_. None),
      str_lower = (\<lambda>s. s),
      str_encode = (\<lambda>s. s),
      format_value = (\<lambda>_. []),
      now_strftime = (\<lambda>_. lit ''20240131_120000''),
      upload_fileobj = (\<lambda>_ _. Inl (Exception (lit ''Access Denied''))),
      http_post = (\<lambda>_ _. Inl (RequestException (lit ''Connection refused'')))\<rparr>"

text \<open>
  A \<^verbatim>\<open>float\<close> that knows four texts; it stands for the builtin where a concrete run is
  evaluated.
\<close>

definition sample_float :: "pystr \<Rightarrow> pyfloat option" where
  "sample_float t =
     (if t = lit ''2.5'' then Some (Finite 2.5)
      else if t = lit ''0.02'' then Some (Finite 0.02)
      else if t = lit ''nan'' then Some NaN
      else if t = lit ''-inf'' then Some NegInf
      else None)"

text \<open>
  A service that answers every request with one choice, the text \<open>c\<close>. The files hold
  their own names, and the encoding leaves the bytes as they are, so that each image can
  be told from the others.
\<close>

definition reply_env :: "pystr \<Rightarrow> env" where
  "reply_env c =
     failing_env
       \<lparr>read_file := (\<lambda>_ path. Inr path),
        b64encode := (\<lambda>b. b),
        chat_create := (\<lambda>_ _. Inr [c]),
        py_float := sample_float\<rparr>"

text \<open>A service whose vision model answers while its text model is out of quota.\<close>

definition degraded_env :: env where
  "degraded_env =
     failing_env
       \<lparr>chat_create := (\<lambda>_ req.
          if model req = lit ''gpt-4-vision-preview'' then Inr [lit ''A brown leather jacket'']
          else Inl (Exception (lit ''Rate limit reached'')))\<rparr>"

definition eight_paths :: "pystr list" where
  "eight_paths =
     [lit ''1.jpg'', lit ''2.jpg'', lit ''3.jpg'', lit ''4.jpg'',
      lit ''5.jpg'', lit ''6.jpg'', lit ''7.jpg'', lit ''8.jpg'']"

text \<open>Three answers of the title generator's model.\<close>

definition short_title_reply :: pystr where
  "short_title_reply = lit ''Vintage leather jacket\<newline>''"

definition long_title_reply :: pystr where
  "long_title_reply =
     lit ''  Vintage Brown Leather Biker Jacket Mens Large Zip Front Quilted Lining Good Con''"

definition long_reply :: pystr where
  "long_reply =
     lit ''Vintage Brown Leather Biker Jacket Mens Large Zip Front Quilted Lining Good Condition''"

text \<open>
  A marketplace that answers every request with the same response, and three responses
  of the token endpoint with the status 200: a JSON object without tokens, and two
  bodies that are no JSON, for which \<^verbatim>\<open>response.json()\<close> raises the given exception.
\<close>

definition http_env :: "http_response \<Rightarrow> env" where
  "http_env response = failing_env\<lparr>http_post := (\<lambda>_ _. Inr response)\<rparr>"

definition empty_object_response :: http_response where
  "empty_object_response =
     \<lparr>status_code = 200, resp_text = lit ''{}'', json_body = Inr (JDict []), http_error = []\<rparr>"

definition no_json_response :: "pyexn \<Rightarrow> http_response" where
  "no_json_response e =
     \<lparr>status_code = 200, resp_text = lit ''<html></html>'', json_body = Inl e, http_error = []\<rparr>"

text \<open>An environment that selects production, and a listing to publish.\<close>

definition production_env :: env where
  "production_env =
     failing_env\<lparr>getenv := (\<lambda>k. if k = lit ''EBAY_SANDBOX'' then Some (lit ''false'') else None)\<rparr>"

definition sample_listing :: ProductListing where
  "sample_listing =
     \<lparr>title = lit ''Vintage leather jacket'',
      description = lit ''<p>Brown leather jacket</p>'',
      category = lit ''Fashion > Men > Coats'',
      postage_weight = Finite 2.5,
      suggested_price = None\<rparr>"

text \<open>
  A store with the bucket \<^verbatim>\<open>my-bucket\<close> that refuses empty objects, and three items to
  upload: an empty image, no image, and an image that was read to its end before.
\<close>

definition storage_env :: env where
  "storage_env =
     failing_env
       \<lparr>getenv := (\<lambda>k. if k = lit ''S3_BUCKET_NAME'' then Some (lit ''my-bucket'') else None),
        upload_fileobj := (\<lambda>_ p. if fileobj p = [] then Inl (Exception (lit ''Access Denied''))
                                  else Inr ())\<rparr>"


text \<open>
  A marketplace that creates the draft, a publisher of either kind that holds a token,
  and an image file that was closed.
\<close>

definition created_response :: http_response where
  "created_response =
     \<lparr>status_code = 201, resp_text = [],
      json_body = Inr (JDict [(lit ''sku'', JStr (lit ''SKU-1''))]), http_error = []\<rparr>"

definition authenticated :: "env \<Rightarrow> eBayAPIManager" where
  "authenticated env =
     (eBayAPIManager_init env)\<lparr>access_token := JStr (lit ''v^1.1#token''), refresh_token := JNone\<rparr>"

definition closed_file :: buffer where
  "closed_file =
     \<lparr>data = [255, 216, 255], pos = 0,
      seek_error = Some (Exception (lit ''I/O operation on closed file.''))\<rparr>"

section \<open>Strings\<close>

lemma length_lit [simp]: "length (lit t) = length t"
  by (simp add: lit_def)

lemma lit_eq_Nil [simp]: "lit t = [] \<longleftrightarrow> t = []"
  by (simp add: lit_def)

lemma lit_append: "lit (t @ u) = lit t @ lit u"
  by (simp add: lit_def)

lemma lit_inject [simp]: "lit t = lit u \<longleftrightarrow> t = u"
proof
  assume "lit t = lit u"
  then have "map (of_char :: char \<Rightarrow> nat) t = map of_char u"
    by (simp add: lit_def)
  moreover have "inj (of_char :: char \<Rightarrow> nat)"
    by (rule injI) simp
  ultimately show "t = u"
    by (simp add: inj_map_eq_map)
qed simp

section \<open>Traces of the single steps\<close>

lemma chat_content_trace: "snd (chat_content env req s) = s @ [ChatCompletion req]"
  by (simp add: chat_content_def split: sum.splits)

lemma generate_ebay_title_trace:
  "snd (generate_ebay_title env a d s) = s @ [ChatCompletion (title_request a d)]"
  using chat_content_trace [of env "title_request a d" s]
  by (auto simp: generate_ebay_title_def Let_def split: prod.splits sum.splits)

lemma generate_ebay_description_trace:
  "snd (generate_ebay_description env a d s) = s @ [ChatCompletion (description_request a d)]"
  using chat_content_trace [of env "description_request a d" s]
  by (auto simp: generate_ebay_description_def split: prod.splits sum.splits)

lemma categorize_product_trace:
  "snd (categorize_product env a d s) = s @ [ChatCompletion (category_request a d)]"
  using chat_content_trace [of env "category_request a d" s]
  by (auto simp: categorize_product_def split: prod.splits sum.splits)

lemma estimate_postage_weight_trace:
  "snd (estimate_postage_weight env a d s) = s @ [ChatCompletion (weight_request a d)]"
  using chat_content_trace [of env "weight_request a d" s]
  by (auto simp: estimate_postage_weight_def Let_def split: prod.splits sum.splits)

lemma encode_image_trace: "snd (encode_image env p s) = s @ [FileRead p]"
  by (simp add: encode_image_def split: sum.splits)

lemma encode_images_trace:
  "encode_images env ps acc s = (r, s') \<Longrightarrow> \<exists>k \<le> length ps. s' = s @ map FileRead (take k ps)"
proof (induction ps arbitrary: acc s)
  case Nil
  then show ?case by simp
next
  case (Cons p ps)
  obtain r1 s1 where e: "encode_image env p s = (r1, s1)"
    by (cases "encode_image env p s")
  have s1: "s1 = s @ [FileRead p]"
    using encode_image_trace [of env p s] e by simp
  show ?case
  proof (cases r1)
    case (Inl x)
    with Cons.prems e s1 have "s' = s @ map FileRead (take 1 (p # ps))" by simp
    then show ?thesis by (intro exI [of _ 1]) simp
  next
    case (Inr b)
    with Cons.prems e
    have "encode_images env ps (acc @ [ImageUrlPart (lit ''data:image/jpeg;base64,'' @ b)]) s1 = (r, s')"
      by simp
    from Cons.IH [OF this] obtain k where "k \<le> length ps" "s' = s1 @ map FileRead (take k ps)"
      by blast
    with s1 have "Suc k \<le> length (p # ps)" "s' = s @ map FileRead (take (Suc k) (p # ps))"
      by simp_all
    then show ?thesis by blast
  qed
qed

lemma model_analysis_request: "model (analysis_request imgs d) = lit ''gpt-4-vision-preview''"
  by (simp add: analysis_request_def)

lemma model_field_requests:
  "model (title_request a d) = lit ''gpt-4''"
  "model (description_request a d) = lit ''gpt-4''"
  "model (category_request a d) = lit ''gpt-4''"
  "model (weight_request a d) = lit ''gpt-4''"
  by (simp_all add: title_request_def description_request_def category_request_def
        weight_request_def)

lemma models_differ: "lit ''gpt-4-vision-preview'' \<noteq> lit ''gpt-4''"
  by (simp add: lit_def)

lemma field_request_not_analysis:
  "title_request a d \<noteq> analysis_request imgs d'"
  "description_request a d \<noteq> analysis_request imgs d'"
  "category_request a d \<noteq> analysis_request imgs d'"
  "weight_request a d \<noteq> analysis_request imgs d'"
  using model_analysis_request [of imgs d'] model_field_requests [of a d] models_differ
  by metis+

text \<open>
  What the Analysis Step adds to the trace: reads of image files, and after them at most
  one call of the service, with the analysis request.
\<close>

lemma analyze_product_images_trace:
  assumes "analyze_product_images env ps d s = (r, s1)"
  shows "\<exists>k imgs. s1 = s @ map FileRead (take k ps) \<or>
           s1 = s @ map FileRead (take k ps) @ [ChatCompletion (analysis_request imgs d)]"
proof (cases "encode_images env (take 6 ps) [] s")
  case (Pair r0 s0)
  from encode_images_trace [OF Pair] obtain k where
    k: "k \<le> length (take 6 ps)" "s0 = s @ map FileRead (take k (take 6 ps))"
    by blast
  then have s0: "s0 = s @ map FileRead (take (min k 6) ps)" by simp
  show ?thesis
  proof (cases r0)
    case (Inl e)
    with assms Pair have "s1 = s0" by (simp add: analyze_product_images_def)
    with s0 show ?thesis by blast
  next
    case (Inr imgs)
    have "snd (chat_content env (analysis_request imgs d) s0) = s0 @ [ChatCompletion (analysis_request imgs d)]"
      by (rule chat_content_trace)
    with assms Pair Inr have "s1 = s0 @ [ChatCompletion (analysis_request imgs d)]"
      by (auto simp: analyze_product_images_def split: prod.splits sum.splits)
    with s0 show ?thesis by auto
  qed
qed

text \<open>The sample services, called once.\<close>

lemma reply_env_chat_content:
  "chat_content (reply_env c) req s = (Inr c, s @ [ChatCompletion req])"
  by (simp add: chat_content_def first_content_def reply_env_def)

lemma failing_env_chat_content:
  "chat_content failing_env req s = (Inl (Exception (lit ''Rate limit reached'')), s @ [ChatCompletion req])"
  by (simp add: chat_content_def failing_env_def)


section \<open>The orchestrator stops when the analysis fails\<close>

lemma analyze_product_images_no_field_call:
  assumes "analyze_product_images env ps d s = (r, s1)"
  shows "ChatCompletion (title_request a d') \<notin> set (drop (length s) s1)"
    and "ChatCompletion (description_request a d') \<notin> set (drop (length s) s1)"
    and "ChatCompletion (category_request a d') \<notin> set (drop (length s) s1)"
    and "ChatCompletion (weight_request a d') \<notin> set (drop (length s) s1)"
  using analyze_product_images_trace [OF assms] field_request_not_analysis [of a d']
  by auto

text \<open>
  C1. Whatever the images and the free text: when the Analysis Step returns a failure,
  \<open>generate_complete_listing\<close> ends in a failure whose message is the analysis error
  behind the words "Failed to analyze images: ", and its trace is the one of the Analysis
  Step; none of the four requests of the Field Generators (title, description,
  category, weight) is in what the run added to the trace.
\<close>

theorem generate_complete_listing_analysis_failure:
  assumes "analyze_product_images env image_paths user_description s = (Inr (AnalysisFailed err), s1)"
  shows "generate_complete_listing env image_paths user_description s =
           (Inl (Exception (lit ''Failed to analyze images: '' @ err)), s1) \<and>
         (\<forall>a d. ChatCompletion (title_request a d) \<notin> set (drop (length s) s1) \<and>
                ChatCompletion (description_request a d) \<notin> set (drop (length s) s1) \<and>
                ChatCompletion (category_request a d) \<notin> set (drop (length s) s1) \<and>
                ChatCompletion (weight_request a d) \<notin> set (drop (length s) s1))"
proof (intro conjI allI)
  show "generate_complete_listing env image_paths user_description s =
          (Inl (Exception (lit ''Failed to analyze images: '' @ err)), s1)"
    using assms by (simp add: generate_complete_listing_def)
qed (rule analyze_product_images_no_field_call [OF assms])+

lemma failing_env_analysis:
  "analyze_product_images failing_env [lit ''a.jpg''] (lit ''jacket'') [] =
     (Inr (AnalysisFailed (lit ''Rate limit reached'')),
      [FileRead (lit ''a.jpg''),
       ChatCompletion (analysis_request
         [ImageUrlPart (lit ''data:image/jpeg;base64,'' @ lit ''/9j/'')] (lit ''jacket''))])"
  by (simp add: analyze_product_images_def encode_image_def chat_content_def failing_env_def)

theorem generate_complete_listing_analysis_failure_witness:
  "generate_complete_listing failing_env [lit ''a.jpg''] (lit ''jacket'') [] =
     (Inl (Exception (lit ''Failed to analyze images: '' @ lit ''Rate limit reached'')),
      [FileRead (lit ''a.jpg''),
       ChatCompletion (analysis_request
         [ImageUrlPart (lit ''data:image/jpeg;base64,'' @ lit ''/9j/'')] (lit ''jacket''))])"
  using generate_complete_listing_analysis_failure [OF failing_env_analysis] by simp

section \<open>The weight rule\<close>

lemma py_max_floor: "float_ge (py_max (Finite 0.1) w) (Finite 0.1)"
  by (cases w) (simp_all add: py_max_def)

lemma parse_weight_floor: "float_ge (parse_weight env t) (Finite 0.1)"
  by (simp add: parse_weight_def py_max_floor split: option.splits)

text \<open>
  C2. Let \<open>c\<close> be the text the weight generator's call returns; the program parses it
  with \<^verbatim>\<open>float(c.strip())\<close>. When that gives a number \<open>x \<ge> 0.1\<close> the weight is \<open>x\<close>; when
  it gives a number \<open>x < 0.1\<close> the weight is \<open>0.1\<close>; when it fails the weight is \<open>0.5\<close>;
  when the call itself fails the weight is \<open>0.5\<close>. In every case, also for an infinity or
  a NaN, the weight returned is \<open>\<ge> 0.1\<close>.
\<close>

theorem estimate_postage_weight_rule:
  "(\<forall>c s'. chat_content env (weight_request a d) s = (Inr c, s') \<longrightarrow>
      (\<forall>x. py_float env (strip c) = Some (Finite x) \<and> x \<ge> 0.1 \<longrightarrow>
         fst (estimate_postage_weight env a d s) = Finite x) \<and>
      (\<forall>x. py_float env (strip c) = Some (Finite x) \<and> x < 0.1 \<longrightarrow>
         fst (estimate_postage_weight env a d s) = Finite 0.1) \<and>
      (py_float env (strip c) = None \<longrightarrow>
         fst (estimate_postage_weight env a d s) = Finite 0.5)) \<and>
   (\<forall>e s'. chat_content env (weight_request a d) s = (Inl e, s') \<longrightarrow>
      fst (estimate_postage_weight env a d s) = Finite 0.5) \<and>
   float_ge (fst (estimate_postage_weight env a d s)) (Finite 0.1)"
proof (intro conjI allI impI)
  fix c s' x
  assume "chat_content env (weight_request a d) s = (Inr c, s')"
    and "py_float env (strip c) = Some (Finite x) \<and> x \<ge> 0.1"
  then show "fst (estimate_postage_weight env a d s) = Finite x"
    by (simp add: estimate_postage_weight_def parse_weight_def py_max_def)
next
  fix c s' x
  assume "chat_content env (weight_request a d) s = (Inr c, s')"
    and "py_float env (strip c) = Some (Finite x) \<and> x < 0.1"
  then show "fst (estimate_postage_weight env a d s) = Finite 0.1"
    by (simp add: estimate_postage_weight_def parse_weight_def py_max_def)
next
  fix c s'
  assume "chat_content env (weight_request a d) s = (Inr c, s')"
    and "py_float env (strip c) = None"
  then show "fst (estimate_postage_weight env a d s) = Finite 0.5"
    by (simp add: estimate_postage_weight_def parse_weight_def)
next
  fix e s'
  assume "chat_content env (weight_request a d) s = (Inl e, s')"
  then show "fst (estimate_postage_weight env a d s) = Finite 0.5"
    by (simp add: estimate_postage_weight_def)
next
  show "float_ge (fst (estimate_postage_weight env a d s)) (Finite 0.1)"
    by (auto simp: estimate_postage_weight_def parse_weight_floor Let_def
          split: prod.splits sum.splits)
qed

lemma reply_env_py_float: "py_float (reply_env c) = sample_float"
  by (simp add: reply_env_def)

lemma strip_samples:
  "strip (lit '' 2.5\<newline>'') = lit ''2.5''"
  "strip (lit ''0.02'') = lit ''0.02''"
  "strip (lit ''abc'') = lit ''abc''"
  "strip (lit ''nan'') = lit ''nan''"
  by (simp_all add: strip_def lit_def isspace_def)

lemma sample_float_samples:
  "sample_float (lit ''2.5'') = Some (Finite 2.5)"
  "sample_float (lit ''0.02'') = Some (Finite 0.02)"
  "sample_float (lit ''abc'') = None"
  "sample_float (lit ''nan'') = Some NaN"
  by (simp_all add: sample_float_def lit_def)

theorem estimate_postage_weight_rule_witness:
  "fst (estimate_postage_weight (reply_env (lit '' 2.5\<newline>'')) (lit ''A jacket'') (lit ''jacket'') [])
     = Finite 2.5 \<and>
   fst (estimate_postage_weight (reply_env (lit ''0.02'')) (lit ''A jacket'') (lit ''jacket'') [])
     = Finite 0.1 \<and>
   fst (estimate_postage_weight (reply_env (lit ''abc'')) (lit ''A jacket'') (lit ''jacket'') [])
     = Finite 0.5 \<and>
   fst (estimate_postage_weight failing_env (lit ''A jacket'') (lit ''jacket'') [])
     = Finite 0.5 \<and>
   float_ge
     (fst (estimate_postage_weight (reply_env (lit ''nan'')) (lit ''A jacket'') (lit ''jacket'') []))
     (Finite 0.1)"
proof (intro conjI)
  let ?a = "lit ''A jacket''" and ?d = "lit ''jacket''"
  have p1: "py_float (reply_env (lit '' 2.5\<newline>'')) (strip (lit '' 2.5\<newline>'')) = Some (Finite 2.5)
              \<and> (2.5::real) \<ge> 0.1"
    by (simp add: reply_env_py_float strip_samples sample_float_samples)
  show "fst (estimate_postage_weight (reply_env (lit '' 2.5\<newline>'')) ?a ?d []) = Finite 2.5"
    using estimate_postage_weight_rule [of "reply_env (lit '' 2.5\<newline>'')" ?a ?d "[]"]
      reply_env_chat_content [of "lit '' 2.5\<newline>''" "weight_request ?a ?d" "[]"] p1
    by blast
  have p2: "py_float (reply_env (lit ''0.02'')) (strip (lit ''0.02'')) = Some (Finite 0.02)
              \<and> (0.02::real) < 0.1"
    by (simp add: reply_env_py_float strip_samples sample_float_samples)
  show "fst (estimate_postage_weight (reply_env (lit ''0.02'')) ?a ?d []) = Finite 0.1"
    using estimate_postage_weight_rule [of "reply_env (lit ''0.02'')" ?a ?d "[]"]
      reply_env_chat_content [of "lit ''0.02''" "weight_request ?a ?d" "[]"] p2
    by blast
  have p3: "py_float (reply_env (lit ''abc'')) (strip (lit ''abc'')) = None"
    by (simp add: reply_env_py_float strip_samples sample_float_samples)
  show "fst (estimate_postage_weight (reply_env (lit ''abc'')) ?a ?d []) = Finite 0.5"
    using estimate_postage_weight_rule [of "reply_env (lit ''abc'')" ?a ?d "[]"]
      reply_env_chat_content [of "lit ''abc''" "weight_request ?a ?d" "[]"] p3
    by blast
  show "fst (estimate_postage_weight failing_env ?a ?d []) = Finite 0.5"
    using estimate_postage_weight_rule [of failing_env ?a ?d "[]"]
      failing_env_chat_content [of "weight_request ?a ?d" "[]"]
    by blast
  show "float_ge (fst (estimate_postage_weight (reply_env (lit ''nan'')) ?a ?d [])) (Finite 0.1)"
    using estimate_postage_weight_rule [of "reply_env (lit ''nan'')" ?a ?d "[]"]
    by blast
qed


section \<open>The title rule\<close>

text \<open>
  C3, as the program has it. Let \<open>c\<close> be the text the title generator's call returns and
  \<open>strip c\<close> that text without the whitespace at its two ends. When \<open>strip c\<close> is longer
  than 80 characters the title is its first 80 characters, and has exactly 80; otherwise
  the title is \<open>strip c\<close>.
\<close>

theorem generate_ebay_title_rule:
  assumes "chat_content env (title_request a d) s = (Inr c, s')"
  shows "(length (strip c) > 80 \<longrightarrow>
            fst (generate_ebay_title env a d s) = take 80 (strip c) \<and>
            length (fst (generate_ebay_title env a d s)) = 80) \<and>
         (length (strip c) \<le> 80 \<longrightarrow> fst (generate_ebay_title env a d s) = strip c)"
  using assms by (simp add: generate_ebay_title_def Let_def)

text \<open>
  The rule does not hold of the returned text itself. A title of 23 characters that the
  service ends with a newline is not stored unchanged, and 79 characters behind two
  spaces, 81 in all, are stored as 79 characters, not as the first 80 of the 81.
\<close>

lemma strip_short_title: "strip short_title_reply = lit ''Vintage leather jacket''"
  by (simp add: short_title_reply_def strip_def lit_def isspace_def)

lemma strip_long_title:
  "strip long_title_reply =
     lit ''Vintage Brown Leather Biker Jacket Mens Large Zip Front Quilted Lining Good Con''"
  by (simp add: long_title_reply_def strip_def lit_def isspace_def)

theorem generate_ebay_title_rule_witness:
  "fst (generate_ebay_title (reply_env short_title_reply) (lit ''A jacket'') (lit ''jacket'') [])
     = lit ''Vintage leather jacket'' \<and>
   fst (generate_ebay_title (reply_env long_reply) (lit ''A jacket'') (lit ''jacket'') [])
     = lit ''Vintage Brown Leather Biker Jacket Mens Large Zip Front Quilted Lining Good Cond'' \<and>
   length (fst (generate_ebay_title (reply_env long_reply) (lit ''A jacket'') (lit ''jacket'') []))
     = 80"
proof -
  have long: "strip long_reply = long_reply" "length long_reply = 85"
    "take 80 long_reply =
       lit ''Vintage Brown Leather Biker Jacket Mens Large Zip Front Quilted Lining Good Cond''"
    by (simp_all add: long_reply_def strip_def lit_def isspace_def)
  have short: "length (lit ''Vintage leather jacket'') = 22"
    by (simp add: lit_def)
  show ?thesis
    using generate_ebay_title_rule [OF reply_env_chat_content,
            of short_title_reply "lit ''A jacket''" "lit ''jacket''" "[]"]
          generate_ebay_title_rule [OF reply_env_chat_content,
            of long_reply "lit ''A jacket''" "lit ''jacket''" "[]"]
    by (simp add: strip_short_title short long)
qed

theorem generate_ebay_title_raw_counterexample:
  "fst (chat_content (reply_env short_title_reply)
          (title_request (lit ''A jacket'') (lit ''jacket'')) []) = Inr short_title_reply \<and>
   length short_title_reply \<le> 80 \<and>
   fst (generate_ebay_title (reply_env short_title_reply) (lit ''A jacket'') (lit ''jacket'') [])
     \<noteq> short_title_reply \<and>
   fst (chat_content (reply_env long_title_reply)
          (title_request (lit ''A jacket'') (lit ''jacket'')) []) = Inr long_title_reply \<and>
   length long_title_reply > 80 \<and>
   fst (generate_ebay_title (reply_env long_title_reply) (lit ''A jacket'') (lit ''jacket'') [])
     \<noteq> take 80 long_title_reply \<and>
   length (fst (generate_ebay_title (reply_env long_title_reply) (lit ''A jacket'') (lit ''jacket'') []))
     \<noteq> 80"
proof -
  have short: "length short_title_reply = 23" "length (lit ''Vintage leather jacket'') = 22"
    by (simp_all add: short_title_reply_def lit_def)
  have long: "length long_title_reply = 81"
    "length (lit ''Vintage Brown Leather Biker Jacket Mens Large Zip Front Quilted Lining Good Con'') = 79"
    by (simp_all add: long_title_reply_def lit_def)
  have t1: "fst (generate_ebay_title (reply_env short_title_reply) (lit ''A jacket'') (lit ''jacket'') [])
              = lit ''Vintage leather jacket''"
    by (simp add: generate_ebay_title_def reply_env_chat_content strip_short_title short)
  have t2: "fst (generate_ebay_title (reply_env long_title_reply) (lit ''A jacket'') (lit ''jacket'') [])
              = lit ''Vintage Brown Leather Biker Jacket Mens Large Zip Front Quilted Lining Good Con''"
    by (simp add: generate_ebay_title_def reply_env_chat_content strip_long_title long)
  have n1: "lit ''Vintage leather jacket'' \<noteq> short_title_reply"
  proof
    assume "lit ''Vintage leather jacket'' = short_title_reply"
    then have "length (lit ''Vintage leather jacket'') = length short_title_reply"
      by simp
    with short show False by simp
  qed
  have n2: "lit ''Vintage Brown Leather Biker Jacket Mens Large Zip Front Quilted Lining Good Con''
              \<noteq> take 80 long_title_reply"
  proof
    assume "lit ''Vintage Brown Leather Biker Jacket Mens Large Zip Front Quilted Lining Good Con''
              = take 80 long_title_reply"
    then have "length (lit ''Vintage Brown Leather Biker Jacket Mens Large Zip Front Quilted Lining Good Con'')
                 = length (take 80 long_title_reply)"
      by simp
    with long show False by simp
  qed
  show ?thesis
    using t1 t2 n1 n2 short long by (simp add: reply_env_chat_content)
qed


section \<open>The Analysis Step sends the first six images\<close>

lemma encode_image_Inr:
  "encode_image env p s = (Inr b64, s') \<Longrightarrow>
     s' = s @ [FileRead p] \<and> (\<exists>b. read_file env s p = Inr b \<and> b64 = b64encode env b)"
  by (auto simp: encode_image_def split: sum.splits)

lemma encode_images_parts:
  "encode_images env ps acc s = (Inr imgs, s') \<Longrightarrow>
     s' = s @ map FileRead ps \<and>
     length imgs = length acc + length ps \<and>
     take (length acc) imgs = acc \<and>
     (\<forall>i<length ps. \<exists>b.
        read_file env (s @ map FileRead (take i ps)) (ps ! i) = Inr b \<and>
        imgs ! (length acc + i) = ImageUrlPart (lit ''data:image/jpeg;base64,'' @ b64encode env b))"
proof (induction ps arbitrary: acc s)
  case Nil
  then show ?case by simp
next
  case (Cons p ps)
  obtain r1 s1 where e: "encode_image env p s = (r1, s1)"
    by (cases "encode_image env p s")
  with Cons.prems obtain b64 where r1: "r1 = Inr b64"
    by (cases r1) auto
  from encode_image_Inr [OF e [unfolded r1]] obtain b where
    s1: "s1 = s @ [FileRead p]" and b: "read_file env s p = Inr b" "b64 = b64encode env b"
    by blast
  let ?part = "ImageUrlPart (lit ''data:image/jpeg;base64,'' @ b64)"
  have rec: "encode_images env ps (acc @ [?part]) s1 = (Inr imgs, s')"
    using Cons.prems e r1 by simp
  note ih = Cons.IH [OF rec]
  have tr: "s' = s @ map FileRead (p # ps)"
    using ih s1 by simp
  have len: "length imgs = length acc + length (p # ps)"
    using ih by simp
  have tk1: "take (Suc (length acc)) imgs = acc @ [?part]"
    using ih by simp
  have tk: "take (length acc) imgs = acc"
  proof -
    have "take (length acc) imgs = take (length acc) (take (Suc (length acc)) imgs)"
      by (simp add: min_def)
    then show ?thesis using tk1 by simp
  qed
  have here: "imgs ! length acc = ?part"
  proof -
    have "imgs ! length acc = take (Suc (length acc)) imgs ! length acc"
      by simp
    then show ?thesis using tk1 by simp
  qed
  have nth: "\<exists>b'. read_file env (s @ map FileRead (take i (p # ps))) ((p # ps) ! i) = Inr b' \<and>
               imgs ! (length acc + i) = ImageUrlPart (lit ''data:image/jpeg;base64,'' @ b64encode env b')"
    if "i < length (p # ps)" for i
  proof (cases i)
    case 0
    then show ?thesis using b here by simp
  next
    case (Suc j)
    with that have "j < length ps" by simp
    with ih obtain b' where
      "read_file env (s1 @ map FileRead (take j ps)) (ps ! j) = Inr b'"
      "imgs ! (length (acc @ [?part]) + j) = ImageUrlPart (lit ''data:image/jpeg;base64,'' @ b64encode env b')"
      by blast
    then show ?thesis using Suc s1 by simp
  qed
  from tr len tk nth show ?case by blast
qed

lemma request_images_analysis_request:
  "request_images (analysis_request imgs d) = filter is_image imgs"
  by (simp add: request_images_def analysis_request_def)

text \<open>
  C4. When the Analysis Step issues its request, the files read are the first six paths
  of the list (all of them when there are six or fewer), in order, and the image parts of
  the request are the encodings of exactly those files, in the same order: there are
  \<open>min 6 (length image_paths)\<close> of them, and the \<open>i\<close>-th one carries the content of the
  \<open>i\<close>-th path.
\<close>

theorem analyze_product_images_first_six:
  assumes "analyze_product_images env image_paths user_description s = (Inr r, s1)"
  shows "\<exists>req.
           s1 = s @ map FileRead (take 6 image_paths) @ [ChatCompletion req] \<and>
           length (request_images req) = min 6 (length image_paths) \<and>
           (\<forall>i < min 6 (length image_paths). \<exists>b.
              read_file env (s @ map FileRead (take i image_paths)) (image_paths ! i) = Inr b \<and>
              request_images req ! i =
                ImageUrlPart (lit ''data:image/jpeg;base64,'' @ b64encode env b))"
proof -
  obtain r0 s0 where enc: "encode_images env (take 6 image_paths) [] s = (r0, s0)"
    by (cases "encode_images env (take 6 image_paths) [] s")
  with assms obtain imgs where r0: "r0 = Inr imgs"
    by (cases r0) (auto simp: analyze_product_images_def)
  note parts = encode_images_parts [OF enc [unfolded r0]]
  let ?req = "analysis_request imgs user_description"
  have s0: "s0 = s @ map FileRead (take 6 image_paths)"
    using parts by simp
  have len: "length imgs = min 6 (length image_paths)"
    using parts by (simp add: min.commute)
  have nth: "\<exists>b. read_file env (s @ map FileRead (take i image_paths)) (image_paths ! i) = Inr b \<and>
               imgs ! i = ImageUrlPart (lit ''data:image/jpeg;base64,'' @ b64encode env b)"
    if "i < min 6 (length image_paths)" for i
  proof -
    from that have i: "i < length (take 6 image_paths)" by simp
    with parts obtain b where
      "read_file env (s @ map FileRead (take i (take 6 image_paths))) (take 6 image_paths ! i) = Inr b"
      "imgs ! (length ([]::content_part list) + i) =
         ImageUrlPart (lit ''data:image/jpeg;base64,'' @ b64encode env b)"
      by blast
    moreover have "take i (take 6 image_paths) = take i image_paths"
      using that by (simp add: min_absorb1)
    moreover have "take 6 image_paths ! i = image_paths ! i"
      using that by simp
    ultimately show ?thesis by simp
  qed
  have all_images: "filter is_image imgs = imgs"
  proof -
    have "is_image x" if "x \<in> set imgs" for x
    proof -
      from that obtain i where "i < length imgs" "x = imgs ! i"
        by (auto simp: in_set_conv_nth)
      with nth [of i] len show ?thesis by auto
    qed
    then show ?thesis by simp
  qed
  have ri: "request_images ?req = imgs"
    using all_images by (simp add: request_images_analysis_request)
  have "snd (chat_content env ?req s0) = s0 @ [ChatCompletion ?req]"
    by (rule chat_content_trace)
  with assms enc r0 have "s1 = s0 @ [ChatCompletion ?req]"
    by (auto simp: analyze_product_images_def split: prod.splits sum.splits)
  with s0 have "s1 = s @ map FileRead (take 6 image_paths) @ [ChatCompletion ?req]"
    by simp
  with len nth ri show ?thesis by (intro exI [of _ ?req]) simp
qed

lemma reply_env_eight_paths:
  "analyze_product_images (reply_env (lit ''A jacket'')) eight_paths (lit ''jacket'') [] =
     (Inr (AnalysisOk (lit ''A jacket'')),
      map FileRead (take 6 eight_paths) @
      [ChatCompletion (analysis_request
         (map (\<lambda>p. ImageUrlPart (lit ''data:image/jpeg;base64,'' @ p)) (take 6 eight_paths))
         (lit ''jacket''))])"
  by (simp add: analyze_product_images_def encode_image_def chat_content_def first_content_def
        reply_env_def failing_env_def eight_paths_def)

theorem analyze_product_images_first_six_witness:
  "\<exists>req.
     snd (analyze_product_images (reply_env (lit ''A jacket'')) eight_paths (lit ''jacket'') []) =
       [FileRead (lit ''1.jpg''), FileRead (lit ''2.jpg''), FileRead (lit ''3.jpg''),
        FileRead (lit ''4.jpg''), FileRead (lit ''5.jpg''), FileRead (lit ''6.jpg''),
        ChatCompletion req] \<and>
     length (request_images req) = 6 \<and>
     request_images req ! 0 = ImageUrlPart (lit ''data:image/jpeg;base64,'' @ lit ''1.jpg'') \<and>
     request_images req ! 5 = ImageUrlPart (lit ''data:image/jpeg;base64,'' @ lit ''6.jpg'')"
proof -
  let ?env = "reply_env (lit ''A jacket'')"
  from analyze_product_images_first_six [OF reply_env_eight_paths] obtain req where
    tr: "map FileRead (take 6 eight_paths) @
           [ChatCompletion (analysis_request
              (map (\<lambda>p. ImageUrlPart (lit ''data:image/jpeg;base64,'' @ p)) (take 6 eight_paths))
              (lit ''jacket''))] =
         [] @ map FileRead (take 6 eight_paths) @ [ChatCompletion req]"
    and len: "length (request_images req) = min 6 (length eight_paths)"
    and nth: "\<forall>i < min 6 (length eight_paths). \<exists>b.
                read_file ?env ([] @ map FileRead (take i eight_paths)) (eight_paths ! i) = Inr b \<and>
                request_images req ! i =
                  ImageUrlPart (lit ''data:image/jpeg;base64,'' @ b64encode ?env b)"
    by blast
  have l8: "length eight_paths = 8"
    by (simp add: eight_paths_def)
  have "(0::nat) < min 6 (length eight_paths)"
    using l8 by simp
  with nth have
    "\<exists>b. read_file ?env ([] @ map FileRead (take 0 eight_paths)) (eight_paths ! 0) = Inr b \<and>
       request_images req ! 0 = ImageUrlPart (lit ''data:image/jpeg;base64,'' @ b64encode ?env b)"
    by blast
  then have n0: "request_images req ! 0 = ImageUrlPart (lit ''data:image/jpeg;base64,'' @ lit ''1.jpg'')"
    by (auto simp: reply_env_def eight_paths_def)
  have "(5::nat) < min 6 (length eight_paths)"
    using l8 by simp
  with nth have
    "\<exists>b. read_file ?env ([] @ map FileRead (take 5 eight_paths)) (eight_paths ! 5) = Inr b \<and>
       request_images req ! 5 = ImageUrlPart (lit ''data:image/jpeg;base64,'' @ b64encode ?env b)"
    by blast
  then have n5: "request_images req ! 5 = ImageUrlPart (lit ''data:image/jpeg;base64,'' @ lit ''6.jpg'')"
    by (auto simp: reply_env_def eight_paths_def)
  have "snd (analyze_product_images ?env eight_paths (lit ''jacket'') []) =
          map FileRead (take 6 eight_paths) @ [ChatCompletion req]"
    using tr by (simp add: reply_env_eight_paths)
  then have "snd (analyze_product_images ?env eight_paths (lit ''jacket'') []) =
          [FileRead (lit ''1.jpg''), FileRead (lit ''2.jpg''), FileRead (lit ''3.jpg''),
           FileRead (lit ''4.jpg''), FileRead (lit ''5.jpg''), FileRead (lit ''6.jpg''),
           ChatCompletion req]"
    by (simp add: eight_paths_def)
  with len l8 n0 n5 show ?thesis by auto
qed


section \<open>A failed generator degrades one field\<close>

lemma generate_ebay_title_failure:
  "fst (chat_content env (title_request a d) s) = Inl e \<Longrightarrow>
     fst (generate_ebay_title env a d s) = lit ''Error generating title: '' @ str_exn e"
  by (auto simp: generate_ebay_title_def split: prod.splits)

lemma generate_ebay_description_failure:
  "fst (chat_content env (description_request a d) s) = Inl e \<Longrightarrow>
     fst (generate_ebay_description env a d s) =
       lit ''<p>Error generating description: '' @ str_exn e @ lit ''</p>''"
  by (auto simp: generate_ebay_description_def split: prod.splits)

lemma categorize_product_failure:
  "fst (chat_content env (category_request a d) s) = Inl e \<Longrightarrow>
     fst (categorize_product env a d s) = lit ''Error categorizing product: '' @ str_exn e"
  by (auto simp: categorize_product_def split: prod.splits)

lemma estimate_postage_weight_failure:
  "fst (chat_content env (weight_request a d) s) = Inl e \<Longrightarrow>
     fst (estimate_postage_weight env a d s) = Finite 0.5"
  by (auto simp: estimate_postage_weight_def split: prod.splits)

text \<open>With a successful analysis the orchestrator runs the four generators, one after the other.\<close>

lemma generate_complete_listing_success:
  assumes "analyze_product_images env image_paths d s = (Inr (AnalysisOk a), s1)"
  shows "generate_complete_listing env image_paths d s =
           (Inr \<lparr>title = fst (generate_ebay_title env a d s1),
                 description = fst (generate_ebay_description env a d
                   (s1 @ [ChatCompletion (title_request a d)])),
                 category = fst (categorize_product env a d
                   (s1 @ [ChatCompletion (title_request a d),
                          ChatCompletion (description_request a d)])),
                 postage_weight = fst (estimate_postage_weight env a d
                   (s1 @ [ChatCompletion (title_request a d),
                          ChatCompletion (description_request a d),
                          ChatCompletion (category_request a d)])),
                 suggested_price = None\<rparr>,
            s1 @ [ChatCompletion (title_request a d),
                  ChatCompletion (description_request a d),
                  ChatCompletion (category_request a d),
                  ChatCompletion (weight_request a d)])"
proof -
  let ?s2 = "s1 @ [ChatCompletion (title_request a d)]"
  let ?s3 = "s1 @ [ChatCompletion (title_request a d), ChatCompletion (description_request a d)]"
  let ?s4 = "s1 @ [ChatCompletion (title_request a d), ChatCompletion (description_request a d),
                   ChatCompletion (category_request a d)]"
  let ?s5 = "s1 @ [ChatCompletion (title_request a d), ChatCompletion (description_request a d),
                   ChatCompletion (category_request a d), ChatCompletion (weight_request a d)]"
  have t: "generate_ebay_title env a d s1 = (fst (generate_ebay_title env a d s1), ?s2)"
    using generate_ebay_title_trace [of env a d s1] by (simp add: prod_eq_iff)
  have de: "generate_ebay_description env a d ?s2 = (fst (generate_ebay_description env a d ?s2), ?s3)"
    using generate_ebay_description_trace [of env a d ?s2] by (simp add: prod_eq_iff)
  have c: "categorize_product env a d ?s3 = (fst (categorize_product env a d ?s3), ?s4)"
    using categorize_product_trace [of env a d ?s3] by (simp add: prod_eq_iff)
  have w: "estimate_postage_weight env a d ?s4 = (fst (estimate_postage_weight env a d ?s4), ?s5)"
    using estimate_postage_weight_trace [of env a d ?s4] by (simp add: prod_eq_iff)
  have "generate_complete_listing env image_paths d s =
          (let (title, s2) = generate_ebay_title env a d s1;
               (description, s3) = generate_ebay_description env a d s2;
               (category, s4) = categorize_product env a d s3;
               (weight, s5) = estimate_postage_weight env a d s4
           in (Inr \<lparr>title = title, description = description, category = category,
                    postage_weight = weight, suggested_price = None\<rparr>, s5))"
    using assms by (simp add: generate_complete_listing_def)
  also have "\<dots> =
          (let (description, s3) = generate_ebay_description env a d ?s2;
               (category, s4) = categorize_product env a d s3;
               (weight, s5) = estimate_postage_weight env a d s4
           in (Inr \<lparr>title = fst (generate_ebay_title env a d s1), description = description,
                    category = category, postage_weight = weight, suggested_price = None\<rparr>, s5))"
    by (subst t) simp
  also have "\<dots> =
          (let (category, s4) = categorize_product env a d ?s3;
               (weight, s5) = estimate_postage_weight env a d s4
           in (Inr \<lparr>title = fst (generate_ebay_title env a d s1),
                    description = fst (generate_ebay_description env a d ?s2),
                    category = category, postage_weight = weight, suggested_price = None\<rparr>, s5))"
    by (subst de) simp
  also have "\<dots> =
          (let (weight, s5) = estimate_postage_weight env a d ?s4
           in (Inr \<lparr>title = fst (generate_ebay_title env a d s1),
                    description = fst (generate_ebay_description env a d ?s2),
                    category = fst (categorize_product env a d ?s3),
                    postage_weight = weight, suggested_price = None\<rparr>, s5))"
    by (subst c) simp
  also have "\<dots> =
          (Inr \<lparr>title = fst (generate_ebay_title env a d s1),
                description = fst (generate_ebay_description env a d ?s2),
                category = fst (categorize_product env a d ?s3),
                postage_weight = fst (estimate_postage_weight env a d ?s4),
                suggested_price = None\<rparr>, ?s5)"
    by (subst w) simp
  finally show ?thesis by simp
qed

text \<open>
  C5. When the Analysis Step succeeds, \<open>generate_complete_listing\<close> returns a Listing
  Record, and has called the four generators in turn, whatever these calls do. A title,
  description or category generator whose call fails with the exception \<open>e\<close> leaves in
  its field the text "Error generating title: ", "<p>Error generating description: " ...
  "</p>" or "Error categorizing product: " with the message of \<open>e\<close>; a weight generator
  whose call fails leaves the weight 0.5.
\<close>

theorem generate_complete_listing_degrades:
  assumes "analyze_product_images env image_paths d s = (Inr (AnalysisOk a), s1)"
  shows "\<exists>listing.
           generate_complete_listing env image_paths d s =
             (Inr listing,
              s1 @ [ChatCompletion (title_request a d),
                    ChatCompletion (description_request a d),
                    ChatCompletion (category_request a d),
                    ChatCompletion (weight_request a d)]) \<and>
           (\<forall>e. fst (chat_content env (title_request a d) s1) = Inl e \<longrightarrow>
              title listing = lit ''Error generating title: '' @ str_exn e) \<and>
           (\<forall>e. fst (chat_content env (description_request a d)
                       (s1 @ [ChatCompletion (title_request a d)])) = Inl e \<longrightarrow>
              description listing =
                lit ''<p>Error generating description: '' @ str_exn e @ lit ''</p>'') \<and>
           (\<forall>e. fst (chat_content env (category_request a d)
                       (s1 @ [ChatCompletion (title_request a d),
                              ChatCompletion (description_request a d)])) = Inl e \<longrightarrow>
              category listing = lit ''Error categorizing product: '' @ str_exn e) \<and>
           (\<forall>e. fst (chat_content env (weight_request a d)
                       (s1 @ [ChatCompletion (title_request a d),
                              ChatCompletion (description_request a d),
                              ChatCompletion (category_request a d)])) = Inl e \<longrightarrow>
              postage_weight listing = Finite 0.5)"
  using generate_complete_listing_success [OF assms]
  by (auto dest: generate_ebay_title_failure generate_ebay_description_failure
        categorize_product_failure estimate_postage_weight_failure)

lemma degraded_env_analysis:
  "analyze_product_images degraded_env [] (lit ''jacket'') [] =
     (Inr (AnalysisOk (lit ''A brown leather jacket'')),
      [ChatCompletion (analysis_request [] (lit ''jacket''))])"
  by (simp add: analyze_product_images_def chat_content_def first_content_def degraded_env_def
        model_analysis_request)

lemma degraded_env_chat_content:
  "model req = lit ''gpt-4'' \<Longrightarrow>
     fst (chat_content degraded_env req s) = Inl (Exception (lit ''Rate limit reached''))"
  by (simp add: chat_content_def degraded_env_def)

theorem generate_complete_listing_degrades_witness:
  "generate_complete_listing degraded_env [] (lit ''jacket'') [] =
     (Inr \<lparr>title = lit ''Error generating title: '' @ lit ''Rate limit reached'',
           description =
             lit ''<p>Error generating description: '' @ lit ''Rate limit reached'' @ lit ''</p>'',
           category = lit ''Error categorizing product: '' @ lit ''Rate limit reached'',
           postage_weight = Finite 0.5,
           suggested_price = None\<rparr>,
      [ChatCompletion (analysis_request [] (lit ''jacket'')),
       ChatCompletion (title_request (lit ''A brown leather jacket'') (lit ''jacket'')),
       ChatCompletion (description_request (lit ''A brown leather jacket'') (lit ''jacket'')),
       ChatCompletion (category_request (lit ''A brown leather jacket'') (lit ''jacket'')),
       ChatCompletion (weight_request (lit ''A brown leather jacket'') (lit ''jacket''))])"
proof -
  let ?a = "lit ''A brown leather jacket''" and ?d = "lit ''jacket''"
  from generate_complete_listing_degrades [OF degraded_env_analysis] obtain listing where
    run: "generate_complete_listing degraded_env [] ?d [] =
            (Inr listing,
             [ChatCompletion (analysis_request [] ?d)] @
             [ChatCompletion (title_request ?a ?d), ChatCompletion (description_request ?a ?d),
              ChatCompletion (category_request ?a ?d), ChatCompletion (weight_request ?a ?d)])"
    and t: "\<forall>e. fst (chat_content degraded_env (title_request ?a ?d)
                      [ChatCompletion (analysis_request [] ?d)]) = Inl e \<longrightarrow>
              title listing = lit ''Error generating title: '' @ str_exn e"
    and de: "\<forall>e. fst (chat_content degraded_env (description_request ?a ?d)
                      ([ChatCompletion (analysis_request [] ?d)] @
                       [ChatCompletion (title_request ?a ?d)])) = Inl e \<longrightarrow>
              description listing =
                lit ''<p>Error generating description: '' @ str_exn e @ lit ''</p>''"
    and c: "\<forall>e. fst (chat_content degraded_env (category_request ?a ?d)
                      ([ChatCompletion (analysis_request [] ?d)] @
                       [ChatCompletion (title_request ?a ?d),
                        ChatCompletion (description_request ?a ?d)])) = Inl e \<longrightarrow>
              category listing = lit ''Error categorizing product: '' @ str_exn e"
    and w: "\<forall>e. fst (chat_content degraded_env (weight_request ?a ?d)
                      ([ChatCompletion (analysis_request [] ?d)] @
                       [ChatCompletion (title_request ?a ?d),
                        ChatCompletion (description_request ?a ?d),
                        ChatCompletion (category_request ?a ?d)])) = Inl e \<longrightarrow>
              postage_weight listing = Finite 0.5"
    by blast
  have "title listing = lit ''Error generating title: '' @ lit ''Rate limit reached''"
    using t by (simp add: degraded_env_chat_content model_field_requests)
  moreover have "description listing =
      lit ''<p>Error generating description: '' @ lit ''Rate limit reached'' @ lit ''</p>''"
    using de by (simp add: degraded_env_chat_content model_field_requests)
  moreover have "category listing = lit ''Error categorizing product: '' @ lit ''Rate limit reached''"
    using c by (simp add: degraded_env_chat_content model_field_requests)
  moreover have "postage_weight listing = Finite 0.5"
    using w by (simp add: degraded_env_chat_content model_field_requests)
  moreover have "suggested_price listing = None"
    using run generate_complete_listing_success [OF degraded_env_analysis] by auto
  ultimately have "listing =
     \<lparr>title = lit ''Error generating title: '' @ lit ''Rate limit reached'',
      description =
        lit ''<p>Error generating description: '' @ lit ''Rate limit reached'' @ lit ''</p>'',
      category = lit ''Error categorizing product: '' @ lit ''Rate limit reached'',
      postage_weight = Finite 0.5,
      suggested_price = None\<rparr>"
    by simp
  with run show ?thesis by simp
qed


section \<open>Errors of the service stay inside the Analysis Step\<close>

text \<open>
  C6. Once the images are encoded, whatever exception the call of the service raises is
  caught: \<open>analyze_product_images\<close> returns (it does not raise) the failure result, whose
  \<open>success\<close> is false and whose payload is the message of the exception, and the call is
  in the trace.
\<close>

theorem analyze_product_images_captures_service_error:
  assumes "encode_images env (take 6 image_paths) [] s = (Inr image_contents, s1)"
    and "chat_create env s1 (analysis_request image_contents user_description) = Inl e"
  shows "\<exists>r. analyze_product_images env image_paths user_description s =
               (Inr r, s1 @ [ChatCompletion (analysis_request image_contents user_description)]) \<and>
             r = AnalysisFailed (str_exn e) \<and> \<not> success r"
  using assms by (simp add: analyze_product_images_def chat_content_def)

text \<open>
  The same holds for a response without choices, whose \<^verbatim>\<open>IndexError\<close> is raised inside
  the \<^verbatim>\<open>try\<close>. What does leave the function is an exception of the file reads, which
  happen before the \<^verbatim>\<open>try\<close>.
\<close>

lemma analyze_product_images_no_choices:
  assumes "encode_images env (take 6 image_paths) [] s = (Inr image_contents, s1)"
    and "chat_create env s1 (analysis_request image_contents user_description) = Inr []"
  shows "fst (analyze_product_images env image_paths user_description s) =
           Inr (AnalysisFailed (lit ''list index out of range''))"
  using assms by (simp add: analyze_product_images_def chat_content_def first_content_def)

lemma analyze_product_images_raises_iff:
  "fst (analyze_product_images env image_paths user_description s) = Inl e \<longleftrightarrow>
   fst (encode_images env (take 6 image_paths) [] s) = Inl e"
  by (auto simp: analyze_product_images_def split: prod.splits sum.splits)

lemma failing_env_encode:
  "encode_images failing_env (take 6 [lit ''a.jpg'']) [] [] =
     (Inr [ImageUrlPart (lit ''data:image/jpeg;base64,'' @ lit ''/9j/'')], [FileRead (lit ''a.jpg'')])"
  by (simp add: encode_image_def failing_env_def)

lemma failing_env_chat: "chat_create failing_env s req = Inl (Exception (lit ''Rate limit reached''))"
  by (simp add: failing_env_def)

theorem analyze_product_images_captures_service_error_witness:
  "analyze_product_images failing_env [lit ''a.jpg''] (lit ''jacket'') [] =
     (Inr (AnalysisFailed (lit ''Rate limit reached'')),
      [FileRead (lit ''a.jpg''),
       ChatCompletion (analysis_request
         [ImageUrlPart (lit ''data:image/jpeg;base64,'' @ lit ''/9j/'')] (lit ''jacket''))]) \<and>
   \<not> success (AnalysisFailed (lit ''Rate limit reached''))"
  using analyze_product_images_captures_service_error [OF failing_env_encode failing_env_chat]
  by simp


section \<open>Publishing without a token\<close>

text \<open>
  C7. A publisher whose access token is \<^verbatim>\<open>None\<close> answers \<open>create_draft_listing\<close>, for
  every listing and every list of image URLs, with the failure "No access token
  available", and the trace is left as it was: no request is sent.
\<close>

theorem create_draft_listing_unauthenticated:
  assumes "access_token self = JNone"
  shows "\<exists>r. create_draft_listing env self listing image_urls s = (r, s) \<and>
             r = DraftFailed (lit ''No access token available'') \<and> \<not> draft_success r"
  using assms by (simp add: create_draft_listing_def)

lemma eBayAPIManager_init_access_token: "access_token (eBayAPIManager_init env) = JNone"
  by (simp add: eBayAPIManager_init_def Let_def)

theorem create_draft_listing_unauthenticated_witness:
  "create_draft_listing failing_env (eBayAPIManager_init failing_env) sample_listing
     [lit ''https://bucket.s3.amazonaws.com/product_images/20240131_120000_0.jpg''] [] =
     (DraftFailed (lit ''No access token available''), [])"
  using create_draft_listing_unauthenticated [OF eBayAPIManager_init_access_token,
          of failing_env failing_env sample_listing
            "[lit ''https://bucket.s3.amazonaws.com/product_images/20240131_120000_0.jpg'']" "[]"]
  by simp


section \<open>The storage uploader\<close>

lemma s3_puts_append [simp]: "s3_puts (es @ fs) = s3_puts es @ s3_puts fs"
  by (induction es rule: s3_puts.induct) simp_all

lemma times_read_append [simp]: "times_read (es @ fs) = times_read es @ times_read fs"
  by (induction es rule: times_read.induct) simp_all

lemma errors_shown_append [simp]: "errors_shown (es @ fs) = errors_shown es @ errors_shown fs"
  by (induction es rule: errors_shown.induct) simp_all


lemma length_present_items: "length (present_items xs) = length (positions_from i xs)"
  by (induction i xs rule: positions_from.induct) simp_all

text \<open>The positions are the indices of the items that are there, in increasing order.\<close>

lemma positions_from_filter:
  "positions_from i xs = map (\<lambda>j. i + j) (filter (\<lambda>j. xs ! j \<noteq> None) [0..<length xs])"
proof (induction i xs rule: positions_from.induct)
  case (1 i)
  show ?case by simp
next
  case (2 i xs)
  have "filter (\<lambda>j. (None # xs) ! j \<noteq> None) [0..<length (None # xs)] =
          filter (\<lambda>j. (None # xs) ! j \<noteq> None) (0 # map Suc [0..<length xs])"
    by (simp add: upt_conv_Cons map_Suc_upt del: upt_Suc)
  also have "\<dots> = map Suc (filter (\<lambda>j. xs ! j \<noteq> None) [0..<length xs])"
    by (simp add: filter_map comp_def)
  finally show ?case using 2 by (simp add: comp_def)
next
  case (3 i x xs)
  have "filter (\<lambda>j. (Some x # xs) ! j \<noteq> None) [0..<length (Some x # xs)] =
          filter (\<lambda>j. (Some x # xs) ! j \<noteq> None) (0 # map Suc [0..<length xs])"
    by (simp add: upt_conv_Cons map_Suc_upt del: upt_Suc)
  also have "\<dots> = 0 # map Suc (filter (\<lambda>j. xs ! j \<noteq> None) [0..<length xs])"
    by (simp add: filter_map comp_def)
  finally show ?case using 3 by (simp add: comp_def)
qed


lemma upload_outcomes_append:
  "upload_outcomes env s (es @ fs) = upload_outcomes env s es @ upload_outcomes env (s @ es) fs"
  by (induction env s es rule: upload_outcomes.induct) simp_all










text \<open>An item whose \<^verbatim>\<open>seek\<close> raises ends the run with its exception, whatever follows it.\<close>

lemma upload_loop_seek_raises:
  "seek_error f = Some e \<Longrightarrow>
     upload_loop env self i (Some f # rest) urls s = (Inl e, s @ [Now (now_strftime env s)])"
  by (simp add: seek_def)




text \<open>A closed file behind an image that was uploaded: the run raises, and no URL is returned.\<close>

lemma storage_env_closed_file:
  "fst (upload_multiple_images storage_env (CloudStorageManager_init storage_env (lit ''s3''))
          [Some \<lparr>data = [255, 216, 255], pos = 0, seek_error = None\<rparr>, Some closed_file] []) =
     Inl (Exception (lit ''I/O operation on closed file.''))"
  by (simp add: upload_multiple_images_def upload_image_def CloudStorageManager_init_def
        storage_env_def failing_env_def closed_file_def seek_def Let_def str_nat.simps)



section \<open>A token exchange that yields no token\<close>

text \<open>
  C9, as the program has it. When the token endpoint answers with a status outside
  400..599 and a body that is a JSON object, \<open>get_access_token\<close> returns \<^verbatim>\<open>True\<close>, with
  or without an access token in the object. Without one, the stored access token is
  \<^verbatim>\<open>None\<close>, and every later \<open>create_draft_listing\<close> of this publisher fails with "No
  access token available".
\<close>

theorem get_access_token_without_token:
  assumes "http_post env s (token_request env self code) = Inr response"
    and "\<not> (400 \<le> status_code response \<and> status_code response < 600)"
    and "json_body response = Inr (JDict kvs)"
  shows "\<exists>self'.
           get_access_token env self code s =
             (Inr True, self', s @ [HttpPost (token_request env self code)]) \<and>
           (map_of kvs (lit ''access_token'') = None \<longrightarrow>
              access_token self' = JNone \<and>
              (\<forall>env' listing image_urls t.
                 create_draft_listing env' self' listing image_urls t =
                   (DraftFailed (lit ''No access token available''), t)))"
proof -
  let ?a = "case map_of kvs (lit ''access_token'') of None \<Rightarrow> JNone | Some x \<Rightarrow> x"
  let ?r = "case map_of kvs (lit ''refresh_token'') of None \<Rightarrow> JNone | Some x \<Rightarrow> x"
  let ?self' = "self\<lparr>access_token := ?a, refresh_token := ?r\<rparr>"
  have rs: "raise_for_status response = Inr ()"
    using assms(2) by (simp add: raise_for_status_def)
  have run: "get_access_token env self code s =
               (Inr True, ?self', s @ [HttpPost (token_request env self code)])"
    using assms(1,3) rs by (simp add: get_access_token_def dict_get_def Let_def)
  have none: "access_token ?self' = JNone" if "map_of kvs (lit ''access_token'') = None"
    using that by simp
  have draft: "create_draft_listing env' ?self' listing image_urls t =
                 (DraftFailed (lit ''No access token available''), t)"
    if "map_of kvs (lit ''access_token'') = None" for env' listing image_urls t
    using that by (simp add: create_draft_listing_def)
  show ?thesis
  proof (rule exI [of _ ?self'], intro conjI impI allI)
    show "get_access_token env self code s =
            (Inr True, ?self', s @ [HttpPost (token_request env self code)])"
      by (rule run)
  next
    assume "map_of kvs (lit ''access_token'') = None"
    then show "access_token ?self' = JNone"
      by (rule none)
  next
    fix env' listing image_urls t
    assume "map_of kvs (lit ''access_token'') = None"
    then show "create_draft_listing env' ?self' listing image_urls t =
                 (DraftFailed (lit ''No access token available''), t)"
      by (rule draft)
  qed
qed

lemma http_env_post: "http_post (http_env response) s req = Inr response"
  by (simp add: http_env_def)

theorem get_access_token_without_token_witness:
  "\<exists>self'.
     get_access_token (http_env empty_object_response) (eBayAPIManager_init failing_env)
       (lit ''v^1.1#i^1'') [] =
       (Inr True, self',
        [HttpPost (token_request (http_env empty_object_response) (eBayAPIManager_init failing_env)
           (lit ''v^1.1#i^1''))]) \<and>
     access_token self' = JNone \<and>
     create_draft_listing failing_env self' sample_listing [] [] =
       (DraftFailed (lit ''No access token available''), [])"
proof -
  have st: "\<not> (400 \<le> status_code empty_object_response \<and> status_code empty_object_response < 600)"
    by (simp add: empty_object_response_def)
  have js: "json_body empty_object_response = Inr (JDict [])"
    by (simp add: empty_object_response_def)
  from get_access_token_without_token
         [of "http_env empty_object_response" "[]" "eBayAPIManager_init failing_env"
             "lit ''v^1.1#i^1''" empty_object_response "[]", OF http_env_post st js]
  show ?thesis by auto
qed

text \<open>
  A successful status is not enough for \<^verbatim>\<open>True\<close>. When the body is no JSON,
  \<^verbatim>\<open>response.json()\<close> raises: a \<^verbatim>\<open>RequestException\<close> is reported and the result is
  \<^verbatim>\<open>False\<close>, any other exception leaves the function. When the body is JSON but no
  object, \<^verbatim>\<open>token_data.get\<close> raises an \<^verbatim>\<open>AttributeError\<close>.
\<close>

theorem get_access_token_status_counterexample:
  "status_code (no_json_response (RequestException (lit ''Expecting value''))) = 200 \<and>
   http_post (http_env (no_json_response (RequestException (lit ''Expecting value'')))) []
     (token_request (http_env (no_json_response (RequestException (lit ''Expecting value''))))
        (eBayAPIManager_init failing_env) (lit ''v^1.1#i^1''))
     = Inr (no_json_response (RequestException (lit ''Expecting value''))) \<and>
   fst (get_access_token (http_env (no_json_response (RequestException (lit ''Expecting value''))))
          (eBayAPIManager_init failing_env) (lit ''v^1.1#i^1'') [])
     = Inr False \<and>
   status_code (no_json_response (Exception (lit ''Expecting value''))) = 200 \<and>
   fst (get_access_token (http_env (no_json_response (Exception (lit ''Expecting value''))))
          (eBayAPIManager_init failing_env) (lit ''v^1.1#i^1'') [])
     = Inl (Exception (lit ''Expecting value''))"
  by (simp add: get_access_token_def raise_for_status_def token_except_def http_env_post
        no_json_response_def Let_def)


section \<open>The authorization URL and the flag\<close>

lemma http_posts_append [simp]: "http_posts (es @ fs) = http_posts es @ http_posts fs"
  by (induction es rule: http_posts.induct) simp_all

text \<open>The handler of the token exchange posts nothing and leaves the publisher as it is.\<close>

lemma token_except_posts:
  "http_posts (snd (snd (token_except e self s))) = http_posts s"
  by (cases e) (simp_all add: token_except_def)

lemma token_except_self: "fst (snd (token_except e self s)) = self"
  by (cases e) (simp_all add: token_except_def)

text \<open>
  What the two operations of the publisher send: the token exchange posts its request
  once, whatever the answer, and a publisher with a token posts the draft request once.
\<close>

lemma get_access_token_posts:
  "http_posts (snd (snd (get_access_token env self code s))) =
     http_posts s @ [token_request env self code]"
  by (simp add: get_access_token_def Let_def token_except_posts split: sum.splits)

lemma get_access_token_base_url:
  "base_url (fst (snd (get_access_token env self code s))) = base_url self \<and>
   is_sandbox (fst (snd (get_access_token env self code s))) = is_sandbox self"
  by (simp add: get_access_token_def Let_def token_except_self split: sum.splits)

lemma get_access_token_extends:
  "take (length s) (snd (snd (get_access_token env self code s))) = s"
  by (cases "http_post env s (token_request env self code)")
    (auto simp: get_access_token_def Let_def token_except_def split: sum.splits pyexn.splits)

lemma create_draft_listing_posts:
  "truthy (access_token self) \<Longrightarrow>
     snd (create_draft_listing env self listing image_urls s) =
       s @ [HttpPost (draft_request env self listing image_urls)]"
  by (simp add: create_draft_listing_def Let_def split: sum.splits)

text \<open>
  C10. Let \<open>self\<close> be the publisher initialised in an environment and \<open>self'\<close> the one
  initialised in the same environment with the variable \<^verbatim>\<open>EBAY_SANDBOX\<close> set to any value
  or unset. Both give the same authorization URL, which is on the host
  \<^verbatim>\<open>auth.ebay.com\<close> and made of the client id, the redirect URI and the scope. The base
  URL is the sandbox one when \<open>is_sandbox\<close> holds and the production one otherwise, and
  the token request and the draft request go to the base URL. So do the operations:
  whatever tokens the publisher holds, \<open>get_access_token\<close> sends exactly one request, to
  the base URL with the token path, and keeps the base URL; \<open>create_draft_listing\<close> of a
  publisher with a token sends exactly one request, to the base URL with the draft path;
  and the authorization URL is the same with any tokens.
\<close>

theorem get_oauth_url_ignores_flag:
  "get_oauth_url (eBayAPIManager_init (env\<lparr>getenv := (getenv env)(lit ''EBAY_SANDBOX'' := v)\<rparr>)) =
     get_oauth_url (eBayAPIManager_init env) \<and>
   get_oauth_url (eBayAPIManager_init env) =
     lit ''https://auth.ebay.com/oauth2/authorize?client_id=''
       @ str_opt (getenv env (lit ''EBAY_CLIENT_ID''))
       @ lit ''&response_type=code&redirect_uri=''
       @ str_opt (getenv env (lit ''EBAY_REDIRECT_URI''))
       @ lit ''&scope='' @ lit ''https://api.ebay.com/oauth/api_scope/sell.inventory'' \<and>
   base_url (eBayAPIManager_init env) =
     (if is_sandbox (eBayAPIManager_init env) then lit ''https://api.sandbox.ebay.com''
      else lit ''https://api.ebay.com'') \<and>
   is_sandbox (eBayAPIManager_init env) =
     (str_lower env (case getenv env (lit ''EBAY_SANDBOX'') of None \<Rightarrow> lit ''true'' | Some x \<Rightarrow> x)
        = lit ''true'') \<and>
   url (token_request env' (eBayAPIManager_init env) code) =
     base_url (eBayAPIManager_init env) @ lit ''/identity/v1/oauth2/token'' \<and>
   url (draft_request env' (eBayAPIManager_init env) listing image_urls) =
     base_url (eBayAPIManager_init env) @ lit ''/sell/inventory/v1/inventory_item/draft'' \<and>
   get_oauth_url ((eBayAPIManager_init env)\<lparr>access_token := a, refresh_token := r\<rparr>) =
     get_oauth_url (eBayAPIManager_init env) \<and>
   take (length s)
     (snd (snd (get_access_token env'
        ((eBayAPIManager_init env)\<lparr>access_token := a, refresh_token := r\<rparr>) code s))) = s \<and>
   map url (http_posts (drop (length s)
     (snd (snd (get_access_token env'
        ((eBayAPIManager_init env)\<lparr>access_token := a, refresh_token := r\<rparr>) code s))))) =
     [base_url (eBayAPIManager_init env) @ lit ''/identity/v1/oauth2/token''] \<and>
   base_url (fst (snd (get_access_token env'
        ((eBayAPIManager_init env)\<lparr>access_token := a, refresh_token := r\<rparr>) code s))) =
     base_url (eBayAPIManager_init env) \<and>
   (truthy a \<longrightarrow>
      map url (http_posts (drop (length s)
        (snd (create_draft_listing env'
           ((eBayAPIManager_init env)\<lparr>access_token := a, refresh_token := r\<rparr>)
           listing image_urls s)))) =
        [base_url (eBayAPIManager_init env) @ lit ''/sell/inventory/v1/inventory_item/draft''])"
proof -
  let ?init = "eBayAPIManager_init env"
  let ?pub = "?init\<lparr>access_token := a, refresh_token := r\<rparr>"
  let ?tr = "snd (snd (get_access_token env' ?pub code s))"
  have old:
    "get_oauth_url (eBayAPIManager_init (env\<lparr>getenv := (getenv env)(lit ''EBAY_SANDBOX'' := v)\<rparr>)) =
       get_oauth_url ?init \<and>
     get_oauth_url ?init =
       lit ''https://auth.ebay.com/oauth2/authorize?client_id=''
         @ str_opt (getenv env (lit ''EBAY_CLIENT_ID''))
         @ lit ''&response_type=code&redirect_uri=''
         @ str_opt (getenv env (lit ''EBAY_REDIRECT_URI''))
         @ lit ''&scope='' @ lit ''https://api.ebay.com/oauth/api_scope/sell.inventory'' \<and>
     base_url ?init =
       (if is_sandbox ?init then lit ''https://api.sandbox.ebay.com'' else lit ''https://api.ebay.com'') \<and>
     is_sandbox ?init =
       (str_lower env (case getenv env (lit ''EBAY_SANDBOX'') of None \<Rightarrow> lit ''true'' | Some x \<Rightarrow> x)
          = lit ''true'') \<and>
     url (token_request env' ?init code) = base_url ?init @ lit ''/identity/v1/oauth2/token'' \<and>
     url (draft_request env' ?init listing image_urls) =
       base_url ?init @ lit ''/sell/inventory/v1/inventory_item/draft''"
    by (simp add: get_oauth_url_def eBayAPIManager_init_def token_request_def draft_request_def Let_def)
  have oauth: "get_oauth_url ?pub = get_oauth_url ?init"
    by (simp add: get_oauth_url_def)
  have ext: "take (length s) ?tr = s"
    by (rule get_access_token_extends)
  have "http_posts ?tr = http_posts s @ [token_request env' ?pub code]"
    by (rule get_access_token_posts)
  moreover have "?tr = s @ drop (length s) ?tr"
    using ext append_take_drop_id [of "length s" ?tr] by simp
  ultimately have "http_posts s @ http_posts (drop (length s) ?tr) =
      http_posts s @ [token_request env' ?pub code]"
    by (metis http_posts_append)
  then have "http_posts (drop (length s) ?tr) = [token_request env' ?pub code]"
    by simp
  then have tok: "map url (http_posts (drop (length s) ?tr)) =
      [base_url ?init @ lit ''/identity/v1/oauth2/token'']"
    by (simp add: token_request_def)
  have base: "base_url (fst (snd (get_access_token env' ?pub code s))) = base_url ?init"
    using get_access_token_base_url [of env' ?pub code s] by simp
  have draft: "map url (http_posts (drop (length s)
        (snd (create_draft_listing env' ?pub listing image_urls s)))) =
        [base_url ?init @ lit ''/sell/inventory/v1/inventory_item/draft'']" if "truthy a"
    using that by (simp add: create_draft_listing_posts draft_request_def)
  from old oauth ext tok base draft show ?thesis
    by (intro conjI impI) simp_all
qed

lemma authenticated_form:
  "authenticated env =
     (eBayAPIManager_init env)\<lparr>access_token := JStr (lit ''v^1.1#token''), refresh_token := JNone\<rparr>"
  by (simp add: authenticated_def)

lemma created_draft_run:
  "create_draft_listing (http_env created_response) (authenticated env) sample_listing [] [] =
     (DraftCreated (JStr (lit ''SKU-1'')) (lit ''Draft listing created successfully''),
      [HttpPost (draft_request (http_env created_response) (authenticated env) sample_listing [])])"
  by (simp add: create_draft_listing_def authenticated_def http_env_def created_response_def
        dict_get_def Let_def)

theorem get_oauth_url_ignores_flag_witness:
  "get_oauth_url (eBayAPIManager_init production_env) =
     get_oauth_url (eBayAPIManager_init failing_env) \<and>
   url (token_request failing_env (eBayAPIManager_init failing_env) (lit ''v^1.1#i^1'')) =
     lit ''https://api.sandbox.ebay.com'' @ lit ''/identity/v1/oauth2/token'' \<and>
   url (token_request failing_env (eBayAPIManager_init production_env) (lit ''v^1.1#i^1'')) =
     lit ''https://api.ebay.com'' @ lit ''/identity/v1/oauth2/token'' \<and>
   url (draft_request failing_env (eBayAPIManager_init failing_env) sample_listing []) =
     lit ''https://api.sandbox.ebay.com'' @ lit ''/sell/inventory/v1/inventory_item/draft'' \<and>
   url (draft_request failing_env (eBayAPIManager_init production_env) sample_listing []) =
     lit ''https://api.ebay.com'' @ lit ''/sell/inventory/v1/inventory_item/draft'' \<and>
   map url (http_posts (snd (snd (get_access_token (http_env empty_object_response)
              (authenticated failing_env) (lit ''v^1.1#i^1'') [])))) =
     [lit ''https://api.sandbox.ebay.com'' @ lit ''/identity/v1/oauth2/token''] \<and>
   map url (http_posts (snd (snd (get_access_token (http_env empty_object_response)
              (authenticated production_env) (lit ''v^1.1#i^1'') [])))) =
     [lit ''https://api.ebay.com'' @ lit ''/identity/v1/oauth2/token''] \<and>
   fst (create_draft_listing (http_env created_response) (authenticated failing_env)
          sample_listing [] []) =
     DraftCreated (JStr (lit ''SKU-1'')) (lit ''Draft listing created successfully'') \<and>
   map url (http_posts (snd (create_draft_listing (http_env created_response)
              (authenticated failing_env) sample_listing [] []))) =
     [lit ''https://api.sandbox.ebay.com'' @ lit ''/sell/inventory/v1/inventory_item/draft''] \<and>
   map url (http_posts (snd (create_draft_listing (http_env created_response)
              (authenticated production_env) sample_listing [] []))) =
     [lit ''https://api.ebay.com'' @ lit ''/sell/inventory/v1/inventory_item/draft'']"
proof -
  have prod: "production_env =
      failing_env\<lparr>getenv := (getenv failing_env)(lit ''EBAY_SANDBOX'' := Some (lit ''false''))\<rparr>"
    by (auto simp: production_env_def failing_env_def)
  have s1: "is_sandbox (eBayAPIManager_init failing_env)"
    by (simp add: eBayAPIManager_init_def failing_env_def)
  have s2: "\<not> is_sandbox (eBayAPIManager_init production_env)"
    by (simp add: eBayAPIManager_init_def production_env_def failing_env_def)
  have tok: "truthy (JStr (lit ''v^1.1#token''))"
    by (simp add: lit_def)
  note sandbox = get_oauth_url_ignores_flag
    [where env = failing_env and v = "Some (lit ''false'')" and code = "lit ''v^1.1#i^1''"
       and listing = sample_listing and image_urls = "[]" and s = "[]"
       and a = "JStr (lit ''v^1.1#token'')" and r = JNone, folded authenticated_form]
  note production = get_oauth_url_ignores_flag
    [where env = production_env and v = "Some (lit ''false'')" and code = "lit ''v^1.1#i^1''"
       and listing = sample_listing and image_urls = "[]" and s = "[]"
       and a = "JStr (lit ''v^1.1#token'')" and r = JNone, folded authenticated_form]
  show ?thesis
    using sandbox [where env' = failing_env] production [where env' = failing_env]
      sandbox [where env' = "http_env empty_object_response"]
      production [where env' = "http_env empty_object_response"]
      sandbox [where env' = "http_env created_response"]
      production [where env' = "http_env created_response"]
      s1 s2 tok created_draft_run [of failing_env]
    by (simp add: prod [symmetric])
qed


end
